theory Spec2Isabelle
  imports Complex_Main
begin

section \<open>ECMAScript values and string helpers used by the sources\<close>

text \<open>
  Strings of the sources are modelled as \<^typ>\<open>string\<close>; a character stands for one code
  unit below 256. Numbers that the sources use as counters, status codes and millisecond
  counts are \<^typ>\<open>int\<close> or \<^typ>\<open>nat\<close>; a status code that may be \<open>NaN\<close> is a \<open>number\<close>. The
  delays of the retry configuration, which may be fractional and are computed with rounding,
  are doubles, introduced with the retry functions.
\<close>

datatype number = NaN | Num int

definition digit_chars :: string where
  "digit_chars = ''0123456789''"

text \<open>
  Decimal digits of a natural number, least significant digit first into an accumulator
  (\<open>String(n)\<close> and template interpolation of an integer-valued number).
\<close>

function digits_acc :: "nat \<Rightarrow> string \<Rightarrow> string" where
  "digits_acc n acc =
     (let acc' = (digit_chars ! (n mod 10)) # acc
      in if n div 10 = 0 then acc' else digits_acc (n div 10) acc')"
  by pat_completeness auto
termination
  by (relation "measure fst") auto

definition show_nat :: "nat \<Rightarrow> string" where
  "show_nat n = digits_acc n []"

definition show_int :: "int \<Rightarrow> string" where
  "show_int i = (if 0 \<le> i then show_nat (nat i) else CHR ''-'' # show_nat (nat (- i)))"

text \<open>\<open>String.prototype.startsWith\<close>, \<open>endsWith\<close> and \<open>includes\<close> (here \<open>includes_str\<close>).\<close>

definition startsWith :: "string \<Rightarrow> string \<Rightarrow> bool" where
  "startsWith s p = (take (length p) s = p)"

definition endsWith :: "string \<Rightarrow> string \<Rightarrow> bool" where
  "endsWith s p = (length p \<le> length s \<and> drop (length s - length p) s = p)"

fun includes_str :: "string \<Rightarrow> string \<Rightarrow> bool" where
  "includes_str [] p = (p = [])"
| "includes_str (c # cs) p = (startsWith (c # cs) p \<or> includes_str cs p)"

text \<open>
  White space as \<open>String.prototype.trim\<close> and \<open>parseInt\<close> strip it: tab, line feed,
  vertical tab, form feed, carriage return, space and the no-break space (the white-space
  code units below 256).
\<close>

definition isWhiteSpace :: "char \<Rightarrow> bool" where
  "isWhiteSpace c = (of_char c \<in> {9, 10, 11, 12, 13, 32, 160 :: nat})"

definition trimStart :: "string \<Rightarrow> string" where
  "trimStart s = dropWhile isWhiteSpace s"

definition trim :: "string \<Rightarrow> string" where
  "trim s = rev (dropWhile isWhiteSpace (rev (dropWhile isWhiteSpace s)))"

definition isDigit :: "char \<Rightarrow> bool" where
  "isDigit c = ((48::nat) \<le> of_char c \<and> of_char c \<le> (57::nat))"

definition digits_value :: "string \<Rightarrow> nat" where
  "digits_value ds = foldl (\<lambda>acc c. acc * 10 + (of_char c - 48)) 0 ds"

text \<open>
  \<open>parseInt(s, 10)\<close>: leading white space is skipped, an optional sign is read, then the
  longest run of decimal digits; with no digit the result is \<open>NaN\<close> (here \<open>None\<close>).
\<close>

definition parseInt10 :: "string \<Rightarrow> int option" where
  "parseInt10 s =
     (let s1 = trimStart s;
          neg = (s1 \<noteq> [] \<and> hd s1 = CHR ''-'');
          s2 = (if s1 \<noteq> [] \<and> (hd s1 = CHR ''-'' \<or> hd s1 = CHR ''+'') then tl s1 else s1);
          ds = takeWhile isDigit s2
      in if ds = [] then None
         else Some (if neg then - int (digits_value ds) else int (digits_value ds)))"

section \<open>Retry and backoff (\<open>core/retry.ts\<close>)\<close>

text \<open>
  The numbers of the delay arithmetic are doubles: \<open>NaN\<close>, the two infinities, or a finite
  value, held as a rational (every finite double is one; \<open>+0\<close> and \<open>-0\<close> are one value
  here, they compare equal in the program too).
\<close>

datatype double = DNaN | NegInf | PosInf | Finite rat

text \<open>The comparisons \<open><=\<close> and \<open><\<close> of doubles: false when an operand is \<open>NaN\<close>.\<close>

fun js_le :: "double \<Rightarrow> double \<Rightarrow> bool" where
  "js_le DNaN b = False"
| "js_le a DNaN = False"
| "js_le NegInf b = True"
| "js_le a PosInf = True"
| "js_le PosInf b = False"
| "js_le a NegInf = False"
| "js_le (Finite x) (Finite y) = (x \<le> y)"


text \<open>
  \<open>Math.min\<close>, \<open>Math.max\<close> and \<open>Math.floor\<close> are exact on doubles: \<open>NaN\<close> when an argument
  is \<open>NaN\<close>, else one of the arguments, or the largest integer not above the argument.
\<close>

definition js_min :: "double \<Rightarrow> double \<Rightarrow> double" where
  "js_min a b = (if a = DNaN \<or> b = DNaN then DNaN else if js_le a b then a else b)"

definition js_max :: "double \<Rightarrow> double \<Rightarrow> double" where
  "js_max a b = (if a = DNaN \<or> b = DNaN then DNaN else if js_le a b then b else a)"

fun js_floor :: "double \<Rightarrow> double" where
  "js_floor (Finite x) = Finite (of_int \<lfloor>x\<rfloor>)"
| "js_floor a = a"

text \<open>
  The operations of the platform that round their result, or whose result the language
  leaves to the implementation: the double nearest to a whole number (what \<open>parseInt\<close>
  returns for the number it read), the product, sum and difference of two doubles,
  \<open>Math.pow\<close> at a whole exponent, and the value that \<open>Math.random()\<close> returns. The
  program computes with whatever these give, so they are parameters here.
\<close>

record Arithmetic =
  num_of_int :: "int \<Rightarrow> double"
  num_times :: "double \<Rightarrow> double \<Rightarrow> double"
  num_plus :: "double \<Rightarrow> double \<Rightarrow> double"
  num_minus :: "double \<Rightarrow> double \<Rightarrow> double"
  math_pow :: "double \<Rightarrow> nat \<Rightarrow> double"
  math_random :: double

record RetryConfig =
  maxRetries :: int
  initialDelayMs :: double
  maxDelayMs :: double
  backoffMultiplier :: double
  jitter :: bool
  retryableStatusCodes :: "int list"
  retryableErrorCodes :: "string list"

definition DEFAULT_RETRY_CONFIG :: RetryConfig where
  "DEFAULT_RETRY_CONFIG =
     \<lparr> maxRetries = 3,
       initialDelayMs = Finite 1000,
       maxDelayMs = Finite 30000,
       backoffMultiplier = Finite 2,
       jitter = True,
       retryableStatusCodes = [408, 429, 500, 502, 503, 504],
       retryableErrorCodes =
         [''ECONNRESET'', ''ECONNREFUSED'', ''ETIMEDOUT'', ''ENOTFOUND'',
          ''EAI_AGAIN'', ''EPIPE'', ''EHOSTUNREACH'', ''ENETUNREACH''] \<rparr>"

text \<open>The field \<open>shouldRetry\<close> of the source's \<open>RetryDecision\<close> is \<open>shouldRetry_flag\<close> here.\<close>

record RetryDecision =
  shouldRetry_flag :: bool
  delayMs :: double
  reason :: string

text \<open>
  \<open>calculateBackoffDelay\<close>, over the arithmetic \<open>ar\<close> of the platform; the attempt number
  is a natural number. The result is a double: it is \<open>NaN\<close> when the product is.
\<close>

definition calculateBackoffDelay :: "Arithmetic \<Rightarrow> nat \<Rightarrow> RetryConfig \<Rightarrow> double" where
  "calculateBackoffDelay ar attempt config =
     (let baseDelay = num_times ar (initialDelayMs config)
                        (math_pow ar (backoffMultiplier config) attempt);
          cappedDelay = js_min baseDelay (maxDelayMs config)
      in if jitter config then
           (let jitterRange = num_times ar cappedDelay (Finite (1 / 4));
                jit = num_times ar
                        (num_minus ar (num_times ar (math_random ar) (Finite 2)) (Finite 1))
                        jitterRange
            in js_max (Finite 0) (js_floor (num_plus ar cappedDelay jit)))
         else js_floor cappedDelay)"

text \<open>
  \<open>parseRetryAfterHeader\<close>. The parameter \<open>dateDelay\<close> stands for the platform's date
  parsing and clock: \<open>dateDelay v\<close> is \<open>new Date(v).getTime() - Date.now()\<close> when \<open>v\<close>
  parses as a date, and \<open>None\<close> otherwise; time values are whole numbers of milliseconds
  that doubles hold exactly, and so is their difference.
\<close>

definition parseRetryAfterHeader ::
  "Arithmetic \<Rightarrow> (string \<Rightarrow> int option) \<Rightarrow> string option \<Rightarrow> double option" where
  "parseRetryAfterHeader ar dateDelay retryAfter =
     (case retryAfter of
        None \<Rightarrow> None
      | Some v \<Rightarrow>
          if v = [] then None
          else
            (let asDate = (case dateDelay v of
                             Some d \<Rightarrow> Some (js_max (Finite 0) (Finite (of_int d)))
                           | None \<Rightarrow> None)
             in case parseInt10 v of
                  Some seconds \<Rightarrow>
                    if 0 \<le> seconds
                    then Some (num_times ar (num_of_int ar seconds) (Finite 1000))
                    else asDate
                | None \<Rightarrow> asDate))"

definition isRetryableStatusCode :: "int \<Rightarrow> RetryConfig \<Rightarrow> bool" where
  "isRetryableStatusCode sc config = (sc \<in> set (retryableStatusCodes config))"

definition isRetryableErrorCode :: "string \<Rightarrow> RetryConfig \<Rightarrow> bool" where
  "isRetryableErrorCode ec config = (ec \<in> set (retryableErrorCodes config))"

text \<open>The error argument of \<open>shouldRetry\<close>: every field is optional.\<close>

record RetryError =
  err_statusCode :: "int option"
  err_code :: "string option"
  err_message :: "string option"

text \<open>
  \<open>shouldRetry\<close>. \<open>error.statusCode && ...\<close> is false for an absent status and for the
  status \<open>0\<close>; \<open>error.code && ...\<close> is false for an absent and for an empty code. The
  response headers are optional.
\<close>

definition shouldRetry ::
  "(string \<Rightarrow> int option) \<Rightarrow> Arithmetic \<Rightarrow> RetryError \<Rightarrow> nat \<Rightarrow> RetryConfig \<Rightarrow>
   (string \<rightharpoonup> string) option \<Rightarrow> RetryDecision" where
  "shouldRetry dateDelay ar err attempt config responseHeaders =
     (if maxRetries config \<le> int attempt then
        \<lparr> shouldRetry_flag = False, delayMs = Finite 0,
          reason = ''Maximum retries ('' @ show_int (maxRetries config) @ '') exceeded'' \<rparr>
      else
        (case (case err_statusCode err of
                 Some sc \<Rightarrow> if sc \<noteq> 0 \<and> isRetryableStatusCode sc config then Some sc else None
               | None \<Rightarrow> None) of
           Some sc \<Rightarrow>
             (let retryAfterDelay =
                    parseRetryAfterHeader ar dateDelay
                      (case responseHeaders of None \<Rightarrow> None | Some h \<Rightarrow> h ''retry-after'');
                  delay = (case retryAfterDelay of
                             Some d \<Rightarrow> d
                           | None \<Rightarrow> calculateBackoffDelay ar attempt config)
              in \<lparr> shouldRetry_flag = True, delayMs = delay,
                   reason = ''Retryable status code: '' @ show_int sc \<rparr>)
         | None \<Rightarrow>
             (case (case err_code err of
                      Some ec \<Rightarrow> if ec \<noteq> [] \<and> isRetryableErrorCode ec config then Some ec else None
                    | None \<Rightarrow> None) of
                Some ec \<Rightarrow>
                  \<lparr> shouldRetry_flag = True,
                    delayMs = calculateBackoffDelay ar attempt config,
                    reason = ''Retryable error code: '' @ ec \<rparr>
              | None \<Rightarrow>
                  \<lparr> shouldRetry_flag = False, delayMs = Finite 0,
                    reason = ''Error is not retryable'' \<rparr>)))"

text \<open>
  The arithmetic of the platform on a fragment, for concrete inputs: the finite values
  \<open>n / 2 ^ k\<close> where \<open>n\<close> is a whole number of magnitude at most \<open>2 ^ 53\<close> and \<open>k\<close> is at most
  1000. Each of them is a double, so a product, sum or difference of two of them that lies
  in the fragment is returned unrounded. \<open>Math.pow\<close> at exponent 0 is 1 whatever the base;
  at another exponent the fragment takes the power itself when it lies in the fragment,
  which is what the engine returns at the powers used below (\<open>2 ^ 2\<close>, \<open>2 ^ 5\<close>,
  \<open>0.5 ^ 1\<close>). Outside the fragment the operations below answer \<open>NaN\<close>; they are used
  only inside it.
\<close>

function is_pow2 :: "nat \<Rightarrow> bool" where
  "is_pow2 n = (if n \<le> 1 then n = 1 else even n \<and> is_pow2 (n div 2))"
  by pat_completeness auto
termination by (relation "measure id") auto

definition in_fragment :: "rat \<Rightarrow> bool" where
  "in_fragment q =
     (case quotient_of q of
        (n, d) \<Rightarrow> \<bar>n\<bar> \<le> 2 ^ 53 \<and> d \<le> 2 ^ 1000 \<and> is_pow2 (nat d))"

definition exact_op :: "(rat \<Rightarrow> rat \<Rightarrow> rat) \<Rightarrow> double \<Rightarrow> double \<Rightarrow> double" where
  "exact_op f a b =
     (case (a, b) of
        (Finite x, Finite y) \<Rightarrow>
          if in_fragment x \<and> in_fragment y \<and> in_fragment (f x y) then Finite (f x y) else DNaN
      | _ \<Rightarrow> DNaN)"

definition exact_pow :: "double \<Rightarrow> nat \<Rightarrow> double" where
  "exact_pow a n =
     (if n = 0 then Finite 1
      else case a of
             Finite x \<Rightarrow> if in_fragment x \<and> in_fragment (x ^ n) then Finite (x ^ n) else DNaN
           | _ \<Rightarrow> DNaN)"

definition fragment_arithmetic :: Arithmetic where
  "fragment_arithmetic =
     \<lparr> num_of_int = (\<lambda>n. if \<bar>n\<bar> \<le> 2 ^ 53 then Finite (of_int n) else DNaN),
       num_times = exact_op (\<lambda>x y. x * y),
       num_plus = exact_op (\<lambda>x y. x + y),
       num_minus = exact_op (\<lambda>x y. x - y),
       math_pow = exact_pow,
       math_random = Finite 0 \<rparr>"



section \<open>Error taxonomy and the HTTP client's error path (\<open>core/types.ts\<close>, \<open>core/httpClient.ts\<close>)\<close>

datatype AemErrorCode =
    CONNECTION_FAILED | TIMEOUT | TLS_ERROR
  | AUTHENTICATION_FAILED | CSRF_TOKEN_FAILED | FORBIDDEN
  | REPLICATION_FAILED | PACKAGE_UPLOAD_FAILED | PACKAGE_INSTALL_FAILED
  | HEALTH_CHECK_FAILED | PURGE_FAILED
  | INVALID_PATH | INVALID_URL | ALLOWLIST_VIOLATION
  | NOT_IMPLEMENTED

text \<open>
  A response body is of type \<open>unknown\<close> in the client: \<open>undefined\<close>, a string, or some
  other value that the host's HTTP helper delivered.
\<close>

datatype 'b body = NoBody | TextBody string | DataBody 'b

text \<open>\<open>AemErrorDetails\<close>; its \<open>context\<close> holds at most the entry \<open>body\<close>.\<close>

record AemErrorDetails =
  det_code :: AemErrorCode
  det_message :: string
  det_statusCode :: "int option"
  det_url :: "string option"
  det_context_body :: "string option"

text \<open>
  \<open>AemHttpClient.getErrorDetails\<close>. \<open>redactUrl\<close> (\<open>core/redaction.ts\<close>) is a parameter.
  \<open>body.substring(0, 200)\<close> is \<open>take 200\<close>.
\<close>

definition getErrorDetails :: "(string \<Rightarrow> string) \<Rightarrow> int \<Rightarrow> string \<Rightarrow> 'b body \<Rightarrow> AemErrorDetails" where
  "getErrorDetails redactUrl status url b =
     (let safeUrl = redactUrl url in
      if status = 401 then
        \<lparr> det_code = AUTHENTICATION_FAILED,
          det_message = ''Authentication failed. Check your credentials.'',
          det_statusCode = Some status, det_url = Some safeUrl, det_context_body = None \<rparr>
      else if status = 403 then
        \<lparr> det_code = FORBIDDEN,
          det_message = ''Access forbidden. Check user permissions.'',
          det_statusCode = Some status, det_url = Some safeUrl, det_context_body = None \<rparr>
      else if status = 404 then
        \<lparr> det_code = HEALTH_CHECK_FAILED,
          det_message = ''Resource not found. Check the URL or path.'',
          det_statusCode = Some status, det_url = Some safeUrl, det_context_body = None \<rparr>
      else if status = 500 \<or> status = 502 \<or> status = 503 \<or> status = 504 then
        \<lparr> det_code = CONNECTION_FAILED,
          det_message = ''Server error ('' @ show_int status @ ''). The AEM instance may be unavailable.'',
          det_statusCode = Some status, det_url = Some safeUrl, det_context_body = None \<rparr>
      else
        \<lparr> det_code = CONNECTION_FAILED,
          det_message = ''Request failed with status '' @ show_int status,
          det_statusCode = Some status, det_url = Some safeUrl,
          det_context_body = (case b of TextBody s \<Rightarrow> Some (take 200 s) | _ \<Rightarrow> None) \<rparr>)"

text \<open>
  The object that \<open>createError\<close> hands to the constructor of the host's \<open>NodeApiError\<close>.
  It has no field for the taxonomy code of the details.
\<close>

record NodeApiErrorArgs =
  arg_message :: string
  arg_description :: string
  arg_httpCode :: string

text \<open>
  What the host and the platform contribute to an error: \<open>JSON.stringify\<close>, which gives
  \<open>undefined\<close> (\<open>None\<close>) for some values, \<open>undefined\<close> itself among them, and the
  constructor of \<open>NodeApiError\<close>, which builds the error object of type \<open>'e\<close> from the
  argument object; the message that this object then shows is the host's.
\<close>

record ('b, 'e) ErrorHost =
  json_stringify :: "'b body \<Rightarrow> string option"
  newNodeApiError :: "NodeApiErrorArgs \<Rightarrow> 'e"

text \<open>
  What \<open>request\<close> throws for a response: the \<open>TypeError\<close> of \<open>redactErrorMessage\<close> called
  with \<open>undefined\<close>, or the host's error object with the property \<open>statusCode\<close> that
  \<open>request\<close> sets on it.
\<close>

datatype 'e request_thrown = ThrownTypeError | ThrownApiError 'e int

text \<open>
  \<open>AemHttpClient.createError\<close>. \<open>redactErrorMessage\<close> (\<open>core/redaction.ts\<close>) is a
  parameter; it starts with \<open>message.replace\<close>, which throws a \<open>TypeError\<close> (\<open>None\<close> here)
  when \<open>JSON.stringify\<close> gave \<open>undefined\<close>.
\<close>

definition createError ::
  "(string \<Rightarrow> string) \<Rightarrow> (string \<Rightarrow> string) \<Rightarrow> ('b, 'e) ErrorHost \<Rightarrow>
   int \<Rightarrow> string \<Rightarrow> 'b body \<Rightarrow> 'e option" where
  "createError redactUrl redactErrorMessage host status url b =
     (let details = getErrorDetails redactUrl status url b in
      case json_stringify host b of
        None \<Rightarrow> None
      | Some text \<Rightarrow>
          Some (newNodeApiError host
                  \<lparr> arg_message = det_message details,
                    arg_description = redactErrorMessage text,
                    arg_httpCode = show_int status \<rparr>))"

record 'b FullResponse =
  resp_statusCode :: int
  resp_headers :: "(string \<rightharpoonup> string) option"
  resp_body :: "'b body"

record 'b HttpResponse =
  http_statusCode :: int
  http_headers :: "string \<rightharpoonup> string"
  http_body :: "'b body"
  latencyMs :: int

text \<open>
  What \<open>executeRequest\<close> inside \<open>AemHttpClient.request\<close> does with the response that the
  host's HTTP helper returned: a status of 400 or more is thrown as an error (\<open>Inl\<close>), any
  other response is returned with the measured latency.
\<close>

definition executeRequest ::
  "(string \<Rightarrow> string) \<Rightarrow> (string \<Rightarrow> string) \<Rightarrow> ('b, 'e) ErrorHost \<Rightarrow>
   string \<Rightarrow> int \<Rightarrow> 'b FullResponse \<Rightarrow> 'e request_thrown + 'b HttpResponse" where
  "executeRequest redactUrl redactErrorMessage host fullUrl latency fullResponse =
     (if 400 \<le> resp_statusCode fullResponse then
        (case createError redactUrl redactErrorMessage host
                (resp_statusCode fullResponse) fullUrl (resp_body fullResponse) of
           None \<Rightarrow> Inl ThrownTypeError
         | Some e \<Rightarrow> Inl (ThrownApiError e (resp_statusCode fullResponse)))
      else
        Inr \<lparr> http_statusCode = resp_statusCode fullResponse,
              http_headers = (case resp_headers fullResponse of Some h \<Rightarrow> h | None \<Rightarrow> Map.empty),
              http_body = resp_body fullResponse,
              latencyMs = latency \<rparr>)"

text \<open>
  A host for concrete inputs: \<open>JSON.stringify\<close> of \<open>undefined\<close> is \<open>undefined\<close>, of a
  string without a character to escape the string in double quotes, and of the empty
  object \<open>{}\<close>; the error object is shown by the arguments it was built from.
\<close>

definition plain_host :: "(unit, NodeApiErrorArgs) ErrorHost" where
  "plain_host =
     \<lparr> json_stringify =
         (\<lambda>b. case b of
                 NoBody \<Rightarrow> None
               | TextBody s \<Rightarrow> Some ([CHR 0x22] @ s @ [CHR 0x22])
               | DataBody d \<Rightarrow> Some ''{}''),
       newNodeApiError = (\<lambda>args. args) \<rparr>"

section \<open>Validation (\<open>core/validation.ts\<close>)\<close>

text \<open>
  \<open>AemErrorDetails\<close> as the validators fill it: a code, a message, the offending path or
  URL, and the allowlist pattern in the context.
\<close>

record ValidationError =
  verr_code :: AemErrorCode
  verr_message :: string
  verr_url :: "string option"
  verr_path :: "string option"
  verr_context_pattern :: "string option"

record ValidationResult =
  valid :: bool
  error :: "ValidationError option"

definition validation_ok :: ValidationResult where
  "validation_ok = \<lparr> valid = True, error = None \<rparr>"

definition invalid_path :: "string \<Rightarrow> string \<Rightarrow> ValidationResult" where
  "invalid_path msg p =
     \<lparr> valid = False,
       error = Some \<lparr> verr_code = INVALID_PATH, verr_message = msg, verr_url = None,
                      verr_path = Some p, verr_context_pattern = None \<rparr> \<rparr>"

definition invalid_url :: "string \<Rightarrow> string \<Rightarrow> ValidationResult" where
  "invalid_url msg u =
     \<lparr> valid = False,
       error = Some \<lparr> verr_code = INVALID_URL, verr_message = msg, verr_url = Some u,
                      verr_path = None, verr_context_pattern = None \<rparr> \<rparr>"

text \<open>The character class \<open>[\x00-\x1f\x7f]\<close>.\<close>

definition isControl :: "char \<Rightarrow> bool" where
  "isControl c = ((of_char c :: nat) \<le> 31 \<or> (of_char c :: nat) = 127)"

text \<open>
  \<open>validateAemPath\<close>. The list of common path prefixes only feeds a check whose branch is
  empty in the source, so it decides nothing.
\<close>

definition validateAemPath :: "string \<Rightarrow> ValidationResult" where
  "validateAemPath p =
     (if p = [] then invalid_path ''Path must be a non-empty string'' p
      else if \<not> startsWith p ''/'' then invalid_path ''Path must start with /'' p
      else if includes_str p ''..'' then
        invalid_path ''Path must not contain path traversal sequences (..)'' p
      else if list_ex isControl p then
        invalid_path ''Path must not contain control characters'' p
      else validation_ok)"

text \<open>
  The platform: \<open>new URL(url)\<close> gives the parsed URL or throws (\<open>None\<close>), and
  \<open>new RegExp(pattern)\<close> gives a regular expression, here the predicate that its
  \<open>test\<close> method computes, or throws (\<open>None\<close>). The validators take both as parameters.
\<close>

record ParsedUrl =
  protocol :: string
  hostname :: string

record Platform =
  newURL :: "string \<Rightarrow> ParsedUrl option"
  newRegExp :: "string \<Rightarrow> (string \<Rightarrow> bool) option"

record UrlOptions =
  requireHttps :: "bool option"
  allowLocalhost :: "bool option"

definition no_url_options :: UrlOptions where
  "no_url_options = \<lparr> requireHttps = None, allowLocalhost = None \<rparr>"

definition validateUrl :: "Platform \<Rightarrow> string \<Rightarrow> UrlOptions \<Rightarrow> ValidationResult" where
  "validateUrl pf u options =
     (let requireHttps' = (case requireHttps options of Some v \<Rightarrow> v | None \<Rightarrow> False);
          allowLocalhost' = (case allowLocalhost options of Some v \<Rightarrow> v | None \<Rightarrow> True)
      in if u = [] then invalid_url ''URL must be a non-empty string'' u
         else
           (case newURL pf u of
              None \<Rightarrow> invalid_url ''Invalid URL format'' u
            | Some parsed \<Rightarrow>
                if protocol parsed \<noteq> ''http:'' \<and> protocol parsed \<noteq> ''https:'' then
                  invalid_url ''URL must use HTTP or HTTPS protocol'' u
                else if requireHttps' \<and> protocol parsed \<noteq> ''https:'' then
                  invalid_url ''URL must use HTTPS'' u
                else
                  (let isLocalhost =
                         (hostname parsed = ''localhost'' \<or> hostname parsed = ''127.0.0.1'' \<or>
                          hostname parsed = ''::1'' \<or> endsWith (hostname parsed) ''.localhost'')
                   in if isLocalhost \<and> \<not> allowLocalhost' then
                        invalid_url ''Localhost URLs are not allowed'' u
                      else validation_ok)))"

text \<open>
  \<open>validateUrlAgainstAllowlist\<close>. \<open>regex.test(url)\<close> on a regular expression without
  flags searches the URL for a match of the pattern anywhere in it.
\<close>

definition validateUrlAgainstAllowlist :: "Platform \<Rightarrow> string \<Rightarrow> string \<Rightarrow> ValidationResult" where
  "validateUrlAgainstAllowlist pf u allowlistPattern =
     (let urlValidation = validateUrl pf u no_url_options in
      if \<not> valid urlValidation then urlValidation
      else if allowlistPattern = [] \<or> trim allowlistPattern = [] then validation_ok
      else
        (case newRegExp pf allowlistPattern of
           None \<Rightarrow>
             \<lparr> valid = False,
               error = Some \<lparr> verr_code = INVALID_URL,
                              verr_message = ''Invalid allowlist regex pattern: '' @ allowlistPattern,
                              verr_url = None, verr_path = None,
                              verr_context_pattern = Some allowlistPattern \<rparr> \<rparr>
         | Some regex_test \<Rightarrow>
             if \<not> regex_test u then
               \<lparr> valid = False,
                 error = Some \<lparr> verr_code = ALLOWLIST_VIOLATION,
                                verr_message =
                                  ''URL does not match allowlist pattern: '' @ allowlistPattern,
                                verr_url = Some u, verr_path = None,
                                verr_context_pattern = Some allowlistPattern \<rparr> \<rparr>
             else validation_ok))"

subsection \<open>A fragment of the platform, for concrete inputs\<close>

text \<open>
  The theorems below hold for every platform. To run the validators on concrete URLs and
  patterns, \<open>fragment_platform\<close> implements the two constructors on a fragment of their
  inputs and answers \<open>None\<close> outside of it; it is used only at inputs inside the fragment.

  URLs of the fragment: \<open>scheme://host\<close> followed by nothing or by a path, query or
  fragment part that begins with \<open>/\<close>, \<open>?\<close> or \<open>#\<close> and holds no white space or control
  character; the scheme is a letter followed by letters, digits, \<open>+\<close>, \<open>-\<close> or \<open>.\<close>; the host
  is a non-empty run of letters, digits, \<open>-\<close> and \<open>.\<close>. Scheme and host are lower-cased.
\<close>

definition isAlpha :: "char \<Rightarrow> bool" where
  "isAlpha c = (let n = (of_char c :: nat) in (65 \<le> n \<and> n \<le> 90) \<or> (97 \<le> n \<and> n \<le> 122))"

definition toLower :: "char \<Rightarrow> char" where
  "toLower c = (let n = (of_char c :: nat) in if 65 \<le> n \<and> n \<le> 90 then char_of (n + 32) else c)"

definition isSchemeChar :: "char \<Rightarrow> bool" where
  "isSchemeChar c = (isAlpha c \<or> isDigit c \<or> c \<in> set ''+-.'')"

definition isHostChar :: "char \<Rightarrow> bool" where
  "isHostChar c = (isAlpha c \<or> isDigit c \<or> c \<in> set ''-.'')"

definition fragment_newURL :: "string \<Rightarrow> ParsedUrl option" where
  "fragment_newURL u =
     (let scheme = takeWhile (\<lambda>c. c \<noteq> CHR '':'') u;
          rest = drop (length scheme) u;
          host = takeWhile isHostChar (drop 3 rest);
          remainder = drop (length host) (drop 3 rest)
      in if scheme = [] \<or> \<not> isAlpha (hd scheme) \<or> \<not> list_all isSchemeChar scheme then None
         else if \<not> startsWith rest ''://'' \<or> host = [] then None
         else if remainder \<noteq> [] \<and> hd remainder \<notin> set ''/?#'' then None
         else if list_ex (\<lambda>c. isWhiteSpace c \<or> isControl c) remainder then None
         else Some \<lparr> protocol = map toLower scheme @ '':'', hostname = map toLower host \<rparr>)"

text \<open>
  Patterns of the fragment: a sequence of atoms, each a literal character, a backslash
  followed by a syntax character (that character, literally), or \<open>.\<close> (any character but
  line feed and carriage return), each optionally followed by \<open>*\<close>; and the assertions
  \<open>^\<close> and \<open>$\<close>. A \<open>*\<close> with nothing to repeat and a backslash at the end do not compile.
\<close>

datatype rx_atom = RxChar char | RxAny | RxBol | RxEol

definition rx_syntax_chars :: string where
  "rx_syntax_chars = CHR 0x5C # ''^$.*+?()[]{}|/''"

fun rx_parse :: "string \<Rightarrow> (rx_atom \<times> bool) list \<Rightarrow> (rx_atom \<times> bool) list option" where
  "rx_parse [] acc = Some (rev acc)"
| "rx_parse [c] acc =
     (if c = CHR 0x5C then None
      else if c = CHR ''*'' then
        (case acc of
           (RxChar d, False) # acc' \<Rightarrow> Some (rev ((RxChar d, True) # acc'))
         | (RxAny, False) # acc' \<Rightarrow> Some (rev ((RxAny, True) # acc'))
         | _ \<Rightarrow> None)
      else if c = CHR ''^'' then Some (rev ((RxBol, False) # acc))
      else if c = CHR ''$'' then Some (rev ((RxEol, False) # acc))
      else if c = CHR ''.'' then Some (rev ((RxAny, False) # acc))
      else if c \<in> set ''()[]{}|+?'' then None
      else Some (rev ((RxChar c, False) # acc)))"
| "rx_parse (c # d # cs) acc =
     (if c = CHR 0x5C then
        (if d \<in> set rx_syntax_chars then rx_parse cs ((RxChar d, False) # acc) else None)
      else if c = CHR ''*'' then
        (case acc of
           (RxChar e, False) # acc' \<Rightarrow> rx_parse (d # cs) ((RxChar e, True) # acc')
         | (RxAny, False) # acc' \<Rightarrow> rx_parse (d # cs) ((RxAny, True) # acc')
         | _ \<Rightarrow> None)
      else if c = CHR ''^'' then rx_parse (d # cs) ((RxBol, False) # acc)
      else if c = CHR ''$'' then rx_parse (d # cs) ((RxEol, False) # acc)
      else if c = CHR ''.'' then rx_parse (d # cs) ((RxAny, False) # acc)
      else if c \<in> set ''()[]{}|+?'' then None
      else rx_parse (d # cs) ((RxChar c, False) # acc))"

fun rx_accepts :: "rx_atom \<Rightarrow> char \<Rightarrow> bool" where
  "rx_accepts (RxChar d) c = (c = d)"
| "rx_accepts RxAny c = (c \<noteq> CHR 0x0A \<and> c \<noteq> CHR 0x0D)"
| "rx_accepts RxBol c = False"
| "rx_accepts RxEol c = False"

text \<open>
  \<open>rx_match r at_start s\<close>: the atoms \<open>r\<close> match a prefix of \<open>s\<close>, where \<open>at_start\<close> says
  that \<open>s\<close> is the whole input.
\<close>

fun rx_match :: "(rx_atom \<times> bool) list \<Rightarrow> bool \<Rightarrow> string \<Rightarrow> bool" where
  "rx_match [] at_start s = True"
| "rx_match ((RxBol, st) # r) at_start s = (at_start \<and> rx_match r at_start s)"
| "rx_match ((RxEol, st) # r) at_start s = (s = [] \<and> rx_match r at_start s)"
| "rx_match ((a, False) # r) at_start [] = False"
| "rx_match ((a, False) # r) at_start (c # cs) = (rx_accepts a c \<and> rx_match r False cs)"
| "rx_match ((a, True) # r) at_start [] = rx_match r at_start []"
| "rx_match ((a, True) # r) at_start (c # cs) =
     (rx_match r at_start (c # cs) \<or> (rx_accepts a c \<and> rx_match ((a, True) # r) False cs))"

text \<open>\<open>test\<close>: a match that starts at some position of the input.\<close>

fun rx_search :: "(rx_atom \<times> bool) list \<Rightarrow> bool \<Rightarrow> string \<Rightarrow> bool" where
  "rx_search r at_start [] = rx_match r at_start []"
| "rx_search r at_start (c # cs) = (rx_match r at_start (c # cs) \<or> rx_search r False cs)"

definition fragment_newRegExp :: "string \<Rightarrow> (string \<Rightarrow> bool) option" where
  "fragment_newRegExp pattern =
     (case rx_parse pattern [] of
        None \<Rightarrow> None
      | Some r \<Rightarrow> Some (\<lambda>s. rx_search r True s))"

definition fragment_platform :: Platform where
  "fragment_platform = \<lparr> newURL = fragment_newURL, newRegExp = fragment_newRegExp \<rparr>"

text \<open>The allowlist pattern \<open>^https://good\.com/.*$\<close> and the unanchored \<open>good\.com\<close>.\<close>

definition good_com_anchored :: string where
  "good_com_anchored = ''^https://good'' @ [CHR 0x5C] @ ''.com/.*$''"

definition good_com_unanchored :: string where
  "good_com_unanchored = ''good'' @ [CHR 0x5C] @ ''.com''"

section \<open>The network, as the adapters see it\<close>

text \<open>
  The calls that the adapters issue: \<open>client.postForm(url, formData)\<close>,
  \<open>client.uploadFile(url, fileData, fileName)\<close> and the host's
  \<open>helpers.httpRequest\<close> with a method, a URL, headers and a timeout.
\<close>

datatype call =
    PostForm string "(string \<times> string) list"
  | UploadFile string "nat list" string
  | HttpRequest string string "(string \<times> string) list" int

text \<open>
  A value that a call throws: whether it is an \<open>Error\<close> instance, its message, and its
  \<open>httpCode\<close> property when it has one.
\<close>

record thrown =
  is_Error :: bool
  thrown_message :: string
  thrown_httpCode :: "string option"

record 'r response =
  res_statusCode :: int
  res_body :: 'r

text \<open>
  The network answers a call with a response or by throwing (\<open>Inl\<close>); its answer may
  depend on every call issued before. An adapter receives the list of the calls issued so
  far and returns it extended by the calls it issued, in order.
\<close>

type_synonym 'r network = "call list \<Rightarrow> call \<Rightarrow> thrown + 'r response"

text \<open>\<open>error instanceof Error ? error.message : 'Unknown error'\<close>\<close>

definition errorMessage :: "thrown \<Rightarrow> string" where
  "errorMessage e = (if is_Error e then thrown_message e else ''Unknown error'')"

text \<open>\<open>error.httpCode ? parseInt(error.httpCode, 10) : 500\<close>\<close>

definition errorStatus :: "thrown \<Rightarrow> number" where
  "errorStatus e =
     (case thrown_httpCode e of
        None \<Rightarrow> Num 500
      | Some h \<Rightarrow>
          if h = [] then Num 500
          else (case parseInt10 h of None \<Rightarrow> NaN | Some n \<Rightarrow> Num n))"

text \<open>
  An optional property of an options object: absent, present with the value
  \<open>undefined\<close>, or present with a value. Spreading the options over the defaults keeps
  the default only for an absent property.
\<close>

datatype 'a optional = Absent | Undefined | Given 'a

fun spread_over :: "'a \<Rightarrow> 'a optional \<Rightarrow> 'a option" where
  "spread_over dflt Absent = Some dflt"
| "spread_over dflt Undefined = None"
| "spread_over dflt (Given v) = Some v"

text \<open>
  A \<open>Set\<close> built from an array, listed in insertion order (\<open>[...new Set(xs)]\<close>): the first
  occurrence of every element, in order.
\<close>

definition js_set_add :: "'a list \<Rightarrow> 'a \<Rightarrow> 'a list" where
  "js_set_add s x = (if x \<in> set s then s else s @ [x])"

definition new_Set :: "'a list \<Rightarrow> 'a list" where
  "new_Set xs = foldl js_set_add [] xs"

text \<open>\<open>Array.prototype.slice(start, end)\<close> on integer arguments.\<close>

definition slice :: "'a list \<Rightarrow> int \<Rightarrow> int \<Rightarrow> 'a list" where
  "slice xs start fin =
     (let n = int (length xs);
          k = (if start < 0 then max (n + start) 0 else min start n);
          e = (if fin < 0 then max (n + fin) 0 else min fin n)
      in take (nat (e - k)) (drop (nat k) xs))"

text \<open>\<open>Array.prototype.join\<close>\<close>

fun join :: "string \<Rightarrow> string list \<Rightarrow> string" where
  "join sep [] = []"
| "join sep [x] = x"
| "join sep (x # y # ys) = x @ sep @ join sep (y # ys)"

text \<open>
  Every result extends \<open>BaseOutput\<close>. Time stamps and measured durations are readings of
  the wall clock and are left out of the results.
\<close>

record BaseOutput =
  ok :: bool
  statusCode :: number

section \<open>Replication (\<open>adapters/aem65/replication.ts\<close>)\<close>

datatype ReplicationAction = activate | deactivate

text \<open>The action as the template strings print it.\<close>

fun action_name :: "ReplicationAction \<Rightarrow> string" where
  "action_name activate = ''activate''"
| "action_name deactivate = ''deactivate''"

fun mapActionToCmd :: "ReplicationAction \<Rightarrow> string" where
  "mapActionToCmd activate = ''Activate''"
| "mapActionToCmd deactivate = ''Deactivate''"

record ReplicationPathResult = BaseOutput +
  path :: string
  action :: ReplicationAction
  requested :: bool
  message :: string

record ReplicationOutput =
  repl_ok :: bool
  totalPaths :: nat
  repl_successCount :: nat
  repl_failureCount :: nat
  repl_dryRun :: "bool option"
  repl_results :: "ReplicationPathResult list"

record ReplicationOptions =
  opt_paths :: "string list"
  opt_action :: ReplicationAction
  opt_batchSize :: "int optional"
  opt_throttleMs :: "int optional"
  opt_dryRun :: "bool optional"

text \<open>
  The body of a replication response, as far as the adapter reads it: its \<open>message\<close>.
  The body itself may be missing (\<open>response.body?.message\<close>).
\<close>

record Aem65ReplicationResponse =
  response_message :: "string option"

definition replication_call :: "ReplicationAction \<Rightarrow> string \<Rightarrow> call" where
  "replication_call act p =
     PostForm ''/bin/replicate.json''
       [(''cmd'', mapActionToCmd act), (''path'', p), (''_charset_'', ''utf-8'')]"

text \<open>\<open>replicateSinglePath\<close>: the result for one path and the extended list of calls.\<close>

definition replicateSinglePath ::
  "Aem65ReplicationResponse option network \<Rightarrow> string \<Rightarrow> ReplicationAction \<Rightarrow> bool \<Rightarrow>
   call list \<Rightarrow> ReplicationPathResult \<times> call list" where
  "replicateSinglePath client p act dry calls =
     (let validation = validateAemPath p in
      if \<not> valid validation then
        (\<lparr> ok = False, statusCode = Num 400, path = p, action = act, requested = False,
           message = (case error validation of
                        None \<Rightarrow> ''Invalid path''
                      | Some e \<Rightarrow> if verr_message e = [] then ''Invalid path'' else verr_message e) \<rparr>,
         calls)
      else if dry then
        (\<lparr> ok = True, statusCode = Num 200, path = p, action = act, requested = False,
           message = ''[DRY RUN] Would '' @ action_name act @ '' path'' \<rparr>,
         calls)
      else
        (case client calls (replication_call act p) of
           Inr response \<Rightarrow>
             (let ok' = (200 \<le> res_statusCode response \<and> res_statusCode response < 300);
                  fallback = (if ok' then ''Successfully '' @ action_name act @ ''d''
                              else ''Replication failed'');
                  message' =
                    (case res_body response of
                       None \<Rightarrow> fallback
                     | Some b \<Rightarrow>
                         (case response_message b of
                            None \<Rightarrow> fallback
                          | Some m \<Rightarrow> if m = [] then fallback else m))
              in (\<lparr> ok = ok', statusCode = Num (res_statusCode response), path = p,
                    action = act, requested = True, message = message' \<rparr>,
                  calls @ [replication_call act p]))
         | Inl e \<Rightarrow>
             (\<lparr> ok = False, statusCode = errorStatus e, path = p, action = act,
                requested = True, message = ''Replication failed: '' @ errorMessage e \<rparr>,
              calls @ [replication_call act p])))"

text \<open>
  The loop of \<open>processBatches\<close> that splits the paths into batches. With a batch size
  below one and a path to split it never ends; a run that does not return is \<open>None\<close>.
\<close>

partial_function (option) split_loop ::
  "string list \<Rightarrow> int \<Rightarrow> int \<Rightarrow> string list list \<Rightarrow> string list list option" where
  "split_loop paths batchSize i batches =
     (if i < int (length paths)
      then split_loop paths batchSize (i + batchSize) (batches @ [slice paths i (i + batchSize)])
      else Some batches)"

declare split_loop.simps [code]

text \<open>
  With the batch size \<open>undefined\<close> the first round computes \<open>paths.slice(0, NaN)\<close>, the
  empty slice, sets \<open>i\<close> to \<open>NaN\<close> and leaves the loop, since \<open>NaN < paths.length\<close> is
  false: the batches are one empty batch.
\<close>

definition split_batches :: "string list \<Rightarrow> int option \<Rightarrow> string list list option" where
  "split_batches paths batchSize =
     (case batchSize of
        Some b \<Rightarrow> split_loop paths b 0 []
      | None \<Rightarrow> Some (if 0 < length paths then [slice paths 0 0] else []))"

text \<open>
  The state of the loops of \<open>processBatches\<close>: the results pushed so far, the set of
  processed paths, the calls issued and the throttle delays slept.
\<close>

record batch_state =
  st_results :: "ReplicationPathResult list"
  st_processed :: "string set"
  st_calls :: "call list"
  st_sleeps :: "int list"

definition skipped_path :: "ReplicationAction \<Rightarrow> string \<Rightarrow> ReplicationPathResult" where
  "skipped_path act p =
     \<lparr> ok = True, statusCode = Num 200, path = p, action = act, requested = False,
       message = ''Skipped (already processed in this run)'' \<rparr>"

text \<open>One round of the inner loop.\<close>

definition process_path ::
  "Aem65ReplicationResponse option network \<Rightarrow> ReplicationAction \<Rightarrow> bool \<Rightarrow>
   batch_state \<Rightarrow> string \<Rightarrow> batch_state" where
  "process_path client act dry st p =
     (if p \<in> st_processed st then
        st \<lparr> st_results := st_results st @ [skipped_path act p] \<rparr>
      else
        (let (result, calls') = replicateSinglePath client p act dry (st_calls st)
         in st \<lparr> st_results := st_results st @ [result],
                 st_calls := calls',
                 st_processed := insert p (st_processed st) \<rparr>))"

text \<open>
  The outer loop: the batches in order, the paths of a batch in order, and a sleep after
  every batch but the last when \<open>throttleMs > 0\<close> (false for \<open>undefined\<close>).
\<close>

fun process_batches ::
  "Aem65ReplicationResponse option network \<Rightarrow> ReplicationAction \<Rightarrow> int option \<Rightarrow> bool \<Rightarrow>
   string list list \<Rightarrow> batch_state \<Rightarrow> batch_state" where
  "process_batches client act throttleMs dry [] st = st"
| "process_batches client act throttleMs dry (batch # rest) st =
     (let st1 = foldl (process_path client act dry) st batch;
          st2 = (case throttleMs of
                   Some t \<Rightarrow> if rest \<noteq> [] \<and> 0 < t
                             then st1 \<lparr> st_sleeps := st_sleeps st1 @ [t] \<rparr> else st1
                 | None \<Rightarrow> st1)
      in process_batches client act throttleMs dry rest st2)"

definition processBatches ::
  "Aem65ReplicationResponse option network \<Rightarrow> string list \<Rightarrow> ReplicationAction \<Rightarrow>
   int option \<Rightarrow> int option \<Rightarrow> bool \<Rightarrow> string set \<Rightarrow> call list \<Rightarrow> batch_state option" where
  "processBatches client paths act batchSize throttleMs dry processedPaths calls =
     (case split_batches paths batchSize of
        None \<Rightarrow> None
      | Some batches \<Rightarrow>
          Some (process_batches client act throttleMs dry batches
                  \<lparr> st_results = [], st_processed = processedPaths,
                    st_calls = calls, st_sleeps = [] \<rparr>))"

text \<open>
  \<open>performReplication\<close>: the output, the calls issued (after those of \<open>calls\<close>) and the
  delays slept; \<open>None\<close> when the run does not return. The options are spread over the
  defaults \<open>batchSize = 10\<close>, \<open>throttleMs = 100\<close>, \<open>dryRun = false\<close>.
\<close>

definition performReplication ::
  "Aem65ReplicationResponse option network \<Rightarrow> ReplicationOptions \<Rightarrow> call list \<Rightarrow>
   (ReplicationOutput \<times> call list \<times> int list) option" where
  "performReplication client options calls =
     (let batchSize = spread_over 10 (opt_batchSize options);
          throttleMs = spread_over 100 (opt_throttleMs options);
          dry = spread_over False (opt_dryRun options);
          uniquePaths = new_Set (opt_paths options)
      in case processBatches client uniquePaths (opt_action options) batchSize throttleMs
                (dry = Some True) {} calls of
           None \<Rightarrow> None
         | Some st \<Rightarrow>
             (let results = st_results st;
                  successCount = length (filter (\<lambda>r. ok r) results);
                  failureCount = length (filter (\<lambda>r. \<not> ok r) results)
              in Some (\<lparr> repl_ok = (failureCount = 0),
                          totalPaths = length results,
                          repl_successCount = successCount,
                          repl_failureCount = failureCount,
                          repl_dryRun = dry,
                          repl_results = results \<rparr>,
                       st_calls st, st_sleeps st)))"

section \<open>Cache purge (\<open>nodes/AemCachePurge/AemCachePurge.node.ts\<close>)\<close>

datatype PurgeMethod = PURGE | POST

fun method_name :: "PurgeMethod \<Rightarrow> string" where
  "method_name PURGE = ''PURGE''"
| "method_name POST = ''POST''"

text \<open>
  \<open>PurgeUrlResult\<close>; its fields \<open>method\<close>, \<open>requested\<close> and \<open>message\<close> carry the prefix
  \<open>purge_\<close> here.
\<close>

record PurgeUrlResult = BaseOutput +
  url :: string
  purge_method :: PurgeMethod
  purge_requested :: bool
  purge_message :: string

text \<open>
  \<open>CachePurgeOutput\<close>; \<open>purge_error\<close> is the \<open>error\<close> property that the node adds to the
  output it emits for a failure it tolerates.
\<close>

record CachePurgeOutput =
  purge_ok :: bool
  totalUrls :: nat
  purge_successCount :: nat
  purge_failureCount :: nat
  purge_dryRun :: bool
  purge_results :: "PurgeUrlResult list"
  purge_error :: "string option"

text \<open>
  The parameters of one input item, after the node has turned the URL input into a list
  of strings; \<open>continueOnFail\<close> is the host's setting.
\<close>

record PurgeParameters =
  par_urls :: "string list"
  par_method :: PurgeMethod
  par_allowlistRegex :: string
  par_dryRun :: bool
  par_customHeaders :: "(string \<times> string) list option"
  par_timeoutMs :: "int option"
  par_failOnError :: "bool option"
  par_continueOnFail :: bool

text \<open>An assignment \<open>record[name] = value\<close> on an object used as a dictionary.\<close>

fun record_set :: "(string \<times> string) list \<Rightarrow> string \<Rightarrow> string \<Rightarrow> (string \<times> string) list" where
  "record_set [] k v = [(k, v)]"
| "record_set ((k', v') # kvs) k v =
     (if k' = k then (k, v) # kvs else (k', v') # record_set kvs k v)"

definition build_customHeaders :: "(string \<times> string) list option \<Rightarrow> (string \<times> string) list" where
  "build_customHeaders hs =
     (case hs of
        None \<Rightarrow> []
      | Some headers \<Rightarrow>
          foldl (\<lambda>acc (name, v). if name \<noteq> [] \<and> v \<noteq> [] then record_set acc name v else acc)
                [] headers)"

record purge_state =
  ps_results :: "PurgeUrlResult list"
  ps_processed :: "string set"
  ps_calls :: "call list"

definition skipped_url :: "PurgeMethod \<Rightarrow> string \<Rightarrow> PurgeUrlResult" where
  "skipped_url m u =
     \<lparr> ok = True, statusCode = Num 200, url = u, purge_method = m, purge_requested = False,
       purge_message = ''Skipped (duplicate URL in this batch)'' \<rparr>"

definition purge_call :: "PurgeMethod \<Rightarrow> (string \<times> string) list \<Rightarrow> int \<Rightarrow> string \<Rightarrow> call" where
  "purge_call m customHeaders timeout u = HttpRequest (method_name m) u customHeaders timeout"

text \<open>
  The body of the loop for a URL that is not a duplicate: the validations, the dry run
  and the request. It gives the result to push and the extended list of calls.
\<close>

definition purge_fresh_url ::
  "Platform \<Rightarrow> 'r network \<Rightarrow> PurgeMethod \<Rightarrow> string \<Rightarrow> bool \<Rightarrow> (string \<times> string) list \<Rightarrow>
   int \<Rightarrow> string \<Rightarrow> call list \<Rightarrow> PurgeUrlResult \<times> call list" where
  "purge_fresh_url pf net m allowlistRegex dry customHeaders timeout u calls =
     (let urlValidation = validateUrl pf u no_url_options in
      if \<not> valid urlValidation then
        (\<lparr> ok = False, statusCode = Num 400, url = u, purge_method = m,
           purge_requested = False,
           purge_message =
             (case error urlValidation of
                None \<Rightarrow> ''Invalid URL format''
              | Some e \<Rightarrow> if verr_message e = [] then ''Invalid URL format''
                          else verr_message e) \<rparr>,
         calls)
      else
        (let allowlistValidation = validateUrlAgainstAllowlist pf u allowlistRegex in
         if \<not> valid allowlistValidation then
           (\<lparr> ok = False, statusCode = Num 403, url = u, purge_method = m,
              purge_requested = False,
              purge_message =
                (case error allowlistValidation of
                   None \<Rightarrow> ''URL not in allowlist''
                 | Some e \<Rightarrow> if verr_message e = [] then ''URL not in allowlist''
                             else verr_message e) \<rparr>,
            calls)
         else if dry then
           (\<lparr> ok = True, statusCode = Num 200, url = u, purge_method = m,
              purge_requested = False,
              purge_message = ''[DRY RUN] Would send '' @ method_name m @ '' request'' \<rparr>,
            calls)
         else
           (case net calls (purge_call m customHeaders timeout u) of
              Inr response \<Rightarrow>
                (let ok' = (200 \<le> res_statusCode response \<and> res_statusCode response < 300)
                 in (\<lparr> ok = ok', statusCode = Num (res_statusCode response), url = u,
                       purge_method = m, purge_requested = True,
                       purge_message =
                         (if ok' then ''Purge successful''
                          else ''Purge failed with status '' @
                               show_int (res_statusCode response)) \<rparr>,
                     calls @ [purge_call m customHeaders timeout u]))
            | Inl e \<Rightarrow>
                (\<lparr> ok = False, statusCode = Num 0, url = u, purge_method = m,
                   purge_requested = True,
                   purge_message = ''Request failed: '' @ errorMessage e \<rparr>,
                 calls @ [purge_call m customHeaders timeout u]))))"

text \<open>
  One round of the loop over the URLs: a duplicate is skipped; any other URL is added to
  the processed set first, and the result of the body is pushed.
\<close>

definition purge_url ::
  "Platform \<Rightarrow> 'r network \<Rightarrow> PurgeMethod \<Rightarrow> string \<Rightarrow> bool \<Rightarrow> (string \<times> string) list \<Rightarrow>
   int \<Rightarrow> purge_state \<Rightarrow> string \<Rightarrow> purge_state" where
  "purge_url pf net m allowlistRegex dry customHeaders timeout st u =
     (if u \<in> ps_processed st then
        st \<lparr> ps_results := ps_results st @ [skipped_url m u] \<rparr>
      else
        (let (result, calls') =
               purge_fresh_url pf net m allowlistRegex dry customHeaders timeout u (ps_calls st)
         in st \<lparr> ps_processed := insert u (ps_processed st),
                 ps_results := ps_results st @ [result],
                 ps_calls := calls' \<rparr>))"

text \<open>The loop over the URLs of one input item, from no result and no processed URL.\<close>

definition purge_urls ::
  "Platform \<Rightarrow> 'r network \<Rightarrow> PurgeMethod \<Rightarrow> string \<Rightarrow> bool \<Rightarrow> (string \<times> string) list \<Rightarrow>
   int \<Rightarrow> string list \<Rightarrow> call list \<Rightarrow> purge_state" where
  "purge_urls pf net m allowlistRegex dry customHeaders timeout urls calls =
     foldl (purge_url pf net m allowlistRegex dry customHeaders timeout)
           \<lparr> ps_results = [], ps_processed = {}, ps_calls = calls \<rparr> urls"

text \<open>
  The \<open>try\<close> block of \<open>execute\<close> for one input item: the output, or the message of the
  \<open>NodeOperationError\<close> it throws (\<open>Inl\<close>), and the calls issued.
\<close>

definition purge_item_try ::
  "Platform \<Rightarrow> 'r network \<Rightarrow> PurgeParameters \<Rightarrow> call list \<Rightarrow>
   (string + CachePurgeOutput) \<times> call list" where
  "purge_item_try pf net params calls =
     (if par_urls params = [] then (Inl ''At least one URL is required'', calls)
      else
        (let customHeaders = build_customHeaders (par_customHeaders params);
             timeout = (case par_timeoutMs params of
                          None \<Rightarrow> 5000
                        | Some t \<Rightarrow> if t = 0 then 5000 else t);
             st = purge_urls pf net (par_method params) (par_allowlistRegex params)
                    (par_dryRun params) customHeaders timeout (par_urls params) calls;
             results = ps_results st;
             successCount = length (filter (\<lambda>r. ok r) results);
             failureCount = length (filter (\<lambda>r. \<not> ok r) results);
             output = \<lparr> purge_ok = (failureCount = 0),
                        totalUrls = length results,
                        purge_successCount = successCount,
                        purge_failureCount = failureCount,
                        purge_dryRun = par_dryRun params,
                        purge_results = results,
                        purge_error = None \<rparr>
         in if par_failOnError params = Some True \<and> \<not> purge_ok output then
              (Inl (''Cache purge failed for '' @ show_int (int failureCount) @ '' URL(s): '' @
                    join ''; '' (map (\<lambda>r. url r @ '': '' @ purge_message r)
                                     (filter (\<lambda>r. \<not> ok r) results))),
               ps_calls st)
            else (Inr output, ps_calls st)))"

text \<open>
  One round of the loop of \<open>execute\<close> over the input items: the \<open>try\<close> block and its
  \<open>catch\<close>, which emits an output in place of the error when the host tolerates failures
  and throws the error on otherwise.
\<close>

definition purge_item ::
  "Platform \<Rightarrow> 'r network \<Rightarrow> PurgeParameters \<Rightarrow> call list \<Rightarrow>
   (string + CachePurgeOutput) \<times> call list" where
  "purge_item pf net params calls =
     (case purge_item_try pf net params calls of
        (Inr output, calls') \<Rightarrow> (Inr output, calls')
      | (Inl err, calls') \<Rightarrow>
          if par_continueOnFail params then
            (Inr \<lparr> purge_ok = False, totalUrls = 0, purge_successCount = 0,
                   purge_failureCount = 0, purge_dryRun = False, purge_results = [],
                   purge_error = Some err \<rparr>,
             calls')
          else (Inl err, calls'))"

section \<open>Package upload (\<open>adapters/aem65/packageManager.ts\<close>)\<close>

text \<open>
  A package manager response body is structured data or raw markup. The record merges
  \<open>Aem65PackageUploadResponse\<close> (with \<open>path\<close>) and \<open>Aem65PackageInstallResponse\<close> (with
  \<open>log\<close>).
\<close>

record Aem65PackageResponse =
  success :: bool
  msg :: string
  pkg_path :: "string option"
  pkg_log :: "string list option"

datatype package_body = Markup string | Structured Aem65PackageResponse

record PackageOutput = BaseOutput +
  uploaded :: bool
  installed :: bool
  packageId :: "string option"
  packageName :: string
  logs :: "string list"
  dryRun :: bool

record PackageUploadOptions =
  pkg_packageName :: "string option"
  pkg_install :: "bool option"
  pkg_dryRun :: "bool option"

text \<open>
  What the adapter takes from the platform: the clock (\<open>Date.now()\<close>), \<open>JSON.parse\<close>
  followed by the read of \<open>path\<close> (\<open>None\<close> when that throws, else the path or \<open>null\<close>),
  and the first match of \<open>/\/etc\/packages\/[^"<\s]+\.zip/\<close>.
\<close>

record PackagePlatform =
  date_now :: int
  json_parse_path :: "string \<Rightarrow> string option option"
  match_package_path :: "string \<Rightarrow> string option"

definition extractPackageName :: "PackagePlatform \<Rightarrow> string option \<Rightarrow> string" where
  "extractPackageName pp providedName =
     (case providedName of
        None \<Rightarrow> ''package-'' @ show_int (date_now pp) @ ''.zip''
      | Some given \<Rightarrow>
          if given \<noteq> [] \<and> trim given \<noteq> [] then
            (let name = trim given in if endsWith name ''.zip'' then name else name @ ''.zip'')
          else ''package-'' @ show_int (date_now pp) @ ''.zip'')"

definition parsePackageId :: "PackagePlatform \<Rightarrow> package_body \<Rightarrow> string option" where
  "parsePackageId pp response =
     (case response of
        Markup s \<Rightarrow>
          (case json_parse_path pp s of
             Some parsed_path \<Rightarrow>
               (case parsed_path of None \<Rightarrow> None | Some p \<Rightarrow> if p = [] then None else Some p)
           | None \<Rightarrow> match_package_path pp s)
      | Structured r \<Rightarrow>
          (case pkg_path r of None \<Rightarrow> None | Some p \<Rightarrow> if p = [] then None else Some p))"

text \<open>\<open>s.split('\n')\<close>\<close>

fun split_lines :: "string \<Rightarrow> string list" where
  "split_lines [] = [[]]"
| "split_lines (c # cs) =
     (if c = CHR 0x0A then [] # split_lines cs
      else (case split_lines cs of l # ls \<Rightarrow> (c # l) # ls | [] \<Rightarrow> [[c]]))"

text \<open>
  \<open>line.replace(/<[^>]*>/g, '')\<close>: an opening angle bracket that has a closing one after it
  is cut together with everything up to the first closing bracket.
\<close>

function strip_tags :: "string \<Rightarrow> string" where
  "strip_tags [] = []"
| "strip_tags (c # cs) =
     (if c = CHR ''<'' \<and> CHR ''>'' \<in> set cs
      then strip_tags (tl (dropWhile (\<lambda>d. d \<noteq> CHR ''>'') cs))
      else c # strip_tags cs)"
  by pat_completeness auto
termination
proof (relation "measure length")
  show "wf (measure length)" by simp
next
  fix c :: char and cs :: string
  have "length (tl (dropWhile (\<lambda>d. d \<noteq> CHR ''>'') cs)) \<le> length cs"
    using length_dropWhile_le [of "\<lambda>d. d \<noteq> CHR ''>''" cs] by simp
  then show "(tl (dropWhile (\<lambda>d. d \<noteq> CHR ''>'') cs), c # cs) \<in> measure length"
    by simp
next
  fix c :: char and cs :: string
  show "(cs, c # cs) \<in> measure length" by simp
qed

definition parseInstallLogs :: "package_body \<Rightarrow> string list" where
  "parseInstallLogs response =
     (case response of
        Markup s \<Rightarrow>
          take 100
            (filter (\<lambda>trimmed. trimmed \<noteq> [] \<and> \<not> startsWith trimmed ''<'')
               (map (\<lambda>line. trim (strip_tags line)) (split_lines s)))
      | Structured r \<Rightarrow>
          (case pkg_log r of
             Some l \<Rightarrow> l
           | None \<Rightarrow> if msg r = [] then [] else [msg r]))"

text \<open>\<open>isSuccessResponse\<close>\<close>

definition isSuccessResponse :: "package_body \<Rightarrow> int \<Rightarrow> bool" where
  "isSuccessResponse response status =
     (if status < 200 \<or> 300 \<le> status then False
      else
        (case response of
           Markup s \<Rightarrow>
             includes_str s ''success'' \<or>
             includes_str s ''Package uploaded'' \<or>
             includes_str s ''Package installed'' \<or>
             \<not> includes_str s ''error'' \<or>
             \<not> includes_str s ''Error''
         | Structured r \<Rightarrow> success r = True))"

definition upload_call :: "nat list \<Rightarrow> string \<Rightarrow> call" where
  "upload_call packageData name =
     UploadFile ''/crx/packmgr/service.jsp?cmd=upload&force=true'' packageData name"

definition install_call :: "string \<Rightarrow> call" where
  "install_call pid = PostForm (''/crx/packmgr/service.jsp/script.html'' @ pid) [(''cmd'', ''install'')]"

text \<open>
  \<open>uploadPackage\<close>: the output and the extended list of calls. An error thrown by a call
  is caught and reported in the output, with the flags as they stood when it was thrown.
\<close>

definition uploadPackage ::
  "PackagePlatform \<Rightarrow> package_body network \<Rightarrow> nat list \<Rightarrow> PackageUploadOptions \<Rightarrow>
   call list \<Rightarrow> PackageOutput \<times> call list" where
  "uploadPackage pp client packageData options calls =
     (let install = (pkg_install options = Some True);
          name = extractPackageName pp
                   (case pkg_packageName options of None \<Rightarrow> Some [] | Some n \<Rightarrow> Some n)
      in if pkg_dryRun options = Some True then
           (\<lparr> ok = True, statusCode = Num 200, uploaded = False, installed = False,
              packageId = None, packageName = name,
              logs = ''[DRY RUN] Would upload package'' #
                     (if install then [''[DRY RUN] Would install package after upload''] else []),
              dryRun = True \<rparr>,
            calls)
         else
           (let logs1 = [''Uploading package: '' @ name];
                calls1 = calls @ [upload_call packageData name]
            in case client calls (upload_call packageData name) of
                 Inl e \<Rightarrow>
                   (\<lparr> ok = False, statusCode = errorStatus e, uploaded = False,
                      installed = False, packageId = None, packageName = name,
                      logs = logs1 @ [''Error: '' @ errorMessage e], dryRun = False \<rparr>,
                    calls1)
               | Inr uploadResponse \<Rightarrow>
                   (let status1 = res_statusCode uploadResponse;
                        uploaded' = isSuccessResponse (res_body uploadResponse) status1;
                        pid = parsePackageId pp (res_body uploadResponse)
                    in if \<not> uploaded' then
                         (\<lparr> ok = False, statusCode = Num status1, uploaded = False,
                            installed = False, packageId = pid, packageName = name,
                            logs = logs1 @ [''Package upload failed''] @
                                   parseInstallLogs (res_body uploadResponse),
                            dryRun = False \<rparr>,
                          calls1)
                       else
                         (let logs2 = logs1 @ [''Package uploaded successfully''] @
                                      (case pid of None \<Rightarrow> [] | Some p \<Rightarrow> [''Package path: '' @ p])
                          in case (if install then pid else None) of
                               None \<Rightarrow>
                                 (\<lparr> ok = (uploaded' \<and> (if install then False else True)),
                                    statusCode = Num status1, uploaded = uploaded',
                                    installed = False, packageId = pid, packageName = name,
                                    logs = logs2, dryRun = False \<rparr>,
                                  calls1)
                             | Some p \<Rightarrow>
                                 (let logs3 = logs2 @ [''Installing package...''];
                                      calls2 = calls1 @ [install_call p]
                                  in case client calls1 (install_call p) of
                                       Inl e \<Rightarrow>
                                         (\<lparr> ok = False, statusCode = errorStatus e,
                                            uploaded = uploaded', installed = False,
                                            packageId = pid, packageName = name,
                                            logs = logs3 @ [''Error: '' @ errorMessage e],
                                            dryRun = False \<rparr>,
                                          calls2)
                                     | Inr installResponse \<Rightarrow>
                                         (let status2 = res_statusCode installResponse;
                                              installed' = isSuccessResponse
                                                             (res_body installResponse) status2
                                          in (\<lparr> ok = (uploaded' \<and> installed'),
                                                statusCode = Num status2, uploaded = uploaded',
                                                installed = installed', packageId = pid,
                                                packageName = name,
                                                logs = logs3 @
                                                       parseInstallLogs (res_body installResponse) @
                                                       [if installed' then ''Package installed successfully''
                                                        else ''Package installation failed''],
                                                dryRun = False \<rparr>,
                                              calls2)))))))"

text \<open>A markup body that reports an error, as the package manager may answer an upload.\<close>

definition error_markup :: string where
  "error_markup = ''<html><body>Error: package rejected</body></html>''"

section \<open>The shape that both loops share\<close>

text \<open>
  Both loops run one step per item over a triple of the results pushed, the set of
  processed items and the calls issued: an item of the set gets the skip result, any other
  item is added to the set and gets the result of the loop body, which may issue calls.
  The proofs below reason about this step once and transfer to both loops.
\<close>

definition dedup_step ::
  "('x \<Rightarrow> 'a) \<Rightarrow> ('x \<Rightarrow> call list \<Rightarrow> 'a \<times> call list) \<Rightarrow>
   'a list \<times> 'x set \<times> call list \<Rightarrow> 'x \<Rightarrow> 'a list \<times> 'x set \<times> call list" where
  "dedup_step skip body st x =
     (case st of (results, processed, calls) \<Rightarrow>
        if x \<in> processed then (results @ [skip x], processed, calls)
        else (results @ [fst (body x calls)], insert x processed, snd (body x calls)))"

definition dedup_loop ::
  "('x \<Rightarrow> 'a) \<Rightarrow> ('x \<Rightarrow> call list \<Rightarrow> 'a \<times> call list) \<Rightarrow> call list \<Rightarrow> 'x list \<Rightarrow>
   'a list \<times> 'x set \<times> call list" where
  "dedup_loop skip body calls xs = foldl (dedup_step skip body) ([], {}, calls) xs"

definition batch_core :: "batch_state \<Rightarrow> ReplicationPathResult list \<times> string set \<times> call list" where
  "batch_core st = (st_results st, st_processed st, st_calls st)"

definition purge_core :: "purge_state \<Rightarrow> PurgeUrlResult list \<times> string set \<times> call list" where
  "purge_core st = (ps_results st, ps_processed st, ps_calls st)"

text \<open>Whether a path or URL reaches the network, and the calls a loop body issues.\<close>

definition live_path :: "bool \<Rightarrow> string \<Rightarrow> bool" where
  "live_path dry p = (valid (validateAemPath p) \<and> \<not> dry)"

definition live_url :: "Platform \<Rightarrow> string \<Rightarrow> bool \<Rightarrow> string \<Rightarrow> bool" where
  "live_url pf allowlistRegex dry u =
     (valid (validateUrl pf u no_url_options) \<and>
      valid (validateUrlAgainstAllowlist pf u allowlistRegex) \<and> \<not> dry)"

section \<open>Concrete inputs\<close>


text \<open>A thrown \<open>Error\<close> with the message \<open>socket hang up\<close> and no \<open>httpCode\<close>.\<close>

definition hang_up :: thrown where
  "hang_up = \<lparr> is_Error = True, thrown_message = ''socket hang up'', thrown_httpCode = None \<rparr>"

text \<open>A replication client that throws on the path \<open>/content/bad\<close> and answers 200 otherwise.\<close>

definition flaky_client :: "Aem65ReplicationResponse option network" where
  "flaky_client =
     (\<lambda>h c. if c = replication_call activate ''/content/bad'' then Inl hang_up
             else Inr \<lparr> res_statusCode = 200, res_body = None \<rparr>)"

definition replicate_options :: "string list \<Rightarrow> bool \<Rightarrow> ReplicationOptions" where
  "replicate_options ps dry =
     \<lparr> opt_paths = ps, opt_action = activate, opt_batchSize = Given 2,
       opt_throttleMs = Given 0, opt_dryRun = Given dry \<rparr>"

text \<open>A purge target that answers every request with status 200.\<close>

definition ok_net :: "unit network" where
  "ok_net = (\<lambda>h c. Inr \<lparr> res_statusCode = 200, res_body = () \<rparr>)"

text \<open>A purge target that throws on every request.\<close>

definition down_net :: "unit network" where
  "down_net = (\<lambda>h c. Inl hang_up)"

definition purge_parameters :: "string list \<Rightarrow> string \<Rightarrow> bool \<Rightarrow> PurgeParameters" where
  "purge_parameters us allowlist dry =
     \<lparr> par_urls = us, par_method = PURGE, par_allowlistRegex = allowlist, par_dryRun = dry,
       par_customHeaders = None, par_timeoutMs = None, par_failOnError = None,
       par_continueOnFail = False \<rparr>"

definition package_platform :: PackagePlatform where
  "package_platform =
     \<lparr> date_now = 1700000000000, json_parse_path = (\<lambda>s. None), match_package_path = (\<lambda>s. None) \<rparr>"

definition ok_package_client :: "package_body network" where
  "ok_package_client =
     (\<lambda>h c. Inr \<lparr> res_statusCode = 200,
                    res_body = Structured \<lparr> success = True, msg = ''ok'',
                                             pkg_path = Some ''/etc/packages/g/p.zip'',
                                             pkg_log = None \<rparr> \<rparr>)"

definition package_options :: "bool \<Rightarrow> PackageUploadOptions" where
  "package_options dry =
     \<lparr> pkg_packageName = Some ''p'', pkg_install = Some True, pkg_dryRun = Some dry \<rparr>"

text \<open>
  Purge parameters of a workflow that fails on errors while the host tolerates failures.
\<close>

definition tolerant_parameters :: PurgeParameters where
  "tolerant_parameters =
     (purge_parameters [''https://evil.com/x''] good_com_anchored False)
       \<lparr> par_failOnError := Some True, par_continueOnFail := True \<rparr>"

text \<open>The inputs of the runs that the examples below evaluate.\<close>

definition flaky_options :: ReplicationOptions where
  "flaky_options =
     replicate_options [''/content/a'', ''/content/bad'', ''/content/a'', ''/content/c''] False"

definition dry_options :: ReplicationOptions where
  "dry_options = replicate_options [''/content/a'', ''/content/bad'', ''not a path''] True"

definition mixed_parameters :: PurgeParameters where
  "mixed_parameters =
     purge_parameters
       [''https://good.com/a'', ''https://evil.com/x'', ''https://good.com/a'',
        ''https://evil.com/x'']
       good_com_anchored False"

definition ftp_parameters :: PurgeParameters where
  "ftp_parameters =
     purge_parameters [''ftp://good.com/a'', ''ftp://good.com/a''] good_com_anchored False"

definition down_parameters :: PurgeParameters where
  "down_parameters =
     purge_parameters [''https://good.com/a'', ''https://good.com/b''] good_com_anchored False"

definition dry_parameters :: PurgeParameters where
  "dry_parameters =
     purge_parameters [''https://good.com/a'', ''https://good.com/a''] good_com_anchored True"


text \<open>
  A URL outside the allowlist, listed twice, in a workflow that fails on errors: once with
  a host that stops at the failure, once with a host that tolerates it.
\<close>

definition strict_twice_parameters :: PurgeParameters where
  "strict_twice_parameters =
     (purge_parameters [''https://evil.com/x'', ''https://evil.com/x''] good_com_anchored False)
       \<lparr> par_failOnError := Some True \<rparr>"

definition tolerant_twice_parameters :: PurgeParameters where
  "tolerant_twice_parameters = strict_twice_parameters \<lparr> par_continueOnFail := True \<rparr>"

section \<open>Properties of retry and backoff\<close>










text \<open>
  Claim C5, amended. \<open>shouldRetry\<close> decides to retry exactly when the attempt number is
  below \<open>maxRetries\<close> and the error carries a non-zero status code of the retryable set or
  a non-empty error code of the retryable set. So the decision is no-retry whenever
  \<open>attempt \<ge> maxRetries\<close>, whatever the error; below \<open>maxRetries\<close> an error that is not
  retryable is refused as well.
\<close>

theorem shouldRetry_decision:
  "shouldRetry_flag (shouldRetry dateDelay ar err attempt config responseHeaders) =
     (int attempt < maxRetries config \<and>
      ((case err_statusCode err of
          Some sc \<Rightarrow> sc \<noteq> 0 \<and> sc \<in> set (retryableStatusCodes config)
        | None \<Rightarrow> False) \<or>
       (case err_code err of
          Some ec \<Rightarrow> ec \<noteq> [] \<and> ec \<in> set (retryableErrorCodes config)
        | None \<Rightarrow> False)))"
  by (auto simp: shouldRetry_def isRetryableStatusCode_def isRetryableErrorCode_def Let_def
           split: option.splits)

text \<open>
  Claim C5 as stated fails: at attempt 0 of 3 an error with status 404 and no error code
  gets a no-retry decision although \<open>attempt < maxRetries\<close>.
\<close>

theorem shouldRetry_exactly_when_exhausted_counterexample:
  "shouldRetry_flag
     (shouldRetry (\<lambda>v. None) fragment_arithmetic
        \<lparr> err_statusCode = Some 404, err_code = None, err_message = Some ''Not Found'' \<rparr>
        0 DEFAULT_RETRY_CONFIG None) = False
   \<and> int 0 < maxRetries DEFAULT_RETRY_CONFIG"
  by (simp add: shouldRetry_def isRetryableStatusCode_def DEFAULT_RETRY_CONFIG_def)





section \<open>Properties of the HTTP client's error path\<close>





text \<open>
  A body that is \<open>undefined\<close> makes \<open>request\<close> throw the \<open>TypeError\<close> of the redaction in
  place of the classified error.
\<close>

lemma executeRequest_undefined_body:
  "executeRequest id id plain_host ''https://aem.example.com/content/a'' 12
     \<lparr> resp_statusCode = 500, resp_headers = None, resp_body = NoBody \<rparr> = Inl ThrownTypeError"
  by (simp add: executeRequest_def createError_def plain_host_def Let_def)

section \<open>Properties of the allowlist validator\<close>

text \<open>
  Claim C3, amended. For a URL that the URL validator accepts:
  an empty (or blank) allowlist pattern accepts it; a pattern that does not compile gives
  \<open>INVALID_URL\<close>; any other pattern is run with \<open>RegExp.test\<close>, and the URL is rejected
  with \<open>ALLOWLIST_VIOLATION\<close> exactly when \<open>test\<close> is false, that is when the pattern
  matches nowhere in the URL. A match of a part of the URL is enough to pass.
\<close>

theorem validateUrlAgainstAllowlist_cases:
  assumes "valid (validateUrl pf u no_url_options)"
  shows "(pattern = [] \<or> trim pattern = [] \<longrightarrow>
            validateUrlAgainstAllowlist pf u pattern = validation_ok)
       \<and> (trim pattern \<noteq> [] \<and> newRegExp pf pattern = None \<longrightarrow>
            \<not> valid (validateUrlAgainstAllowlist pf u pattern) \<and>
            map_option verr_code (error (validateUrlAgainstAllowlist pf u pattern)) =
              Some INVALID_URL)
       \<and> (\<forall>test. trim pattern \<noteq> [] \<and> newRegExp pf pattern = Some test \<longrightarrow>
            valid (validateUrlAgainstAllowlist pf u pattern) = test u \<and>
            map_option verr_code (error (validateUrlAgainstAllowlist pf u pattern)) =
              (if test u then None else Some ALLOWLIST_VIOLATION))"
proof -
  have "trim pattern \<noteq> [] \<Longrightarrow> pattern \<noteq> []" by (auto simp: trim_def)
  then show ?thesis
    using assms
    by (auto simp: validateUrlAgainstAllowlist_def validation_ok_def Let_def)
qed

text \<open>
  The example of the claim, on the platform fragment: \<open>https://evil.com/x\<close> passes the URL
  validator and is rejected by \<open>^https://good\.com/.*$\<close> with \<open>ALLOWLIST_VIOLATION\<close>; the
  pattern \<open>*\<close> does not compile and gives \<open>INVALID_URL\<close>; the empty pattern accepts.
\<close>

theorem validateUrlAgainstAllowlist_cases_witness:
  "valid (validateUrl fragment_platform ''https://evil.com/x'' no_url_options)
   \<and> validateUrlAgainstAllowlist fragment_platform ''https://evil.com/x'' [] = validation_ok
   \<and> valid (validateUrlAgainstAllowlist fragment_platform ''https://evil.com/x''
              good_com_anchored) = False
   \<and> map_option verr_code
        (error (validateUrlAgainstAllowlist fragment_platform ''https://evil.com/x''
                  good_com_anchored)) = Some ALLOWLIST_VIOLATION
   \<and> map_option verr_code
        (error (validateUrlAgainstAllowlist fragment_platform ''https://evil.com/x'' ''*''))
        = Some INVALID_URL"
proof -
  have v: "valid (validateUrl fragment_platform ''https://evil.com/x'' no_url_options)"
    by code_simp
  have t: "trim good_com_anchored \<noteq> []" "trim ''*'' \<noteq> []"
    by code_simp+
  have p: "rx_parse good_com_anchored [] \<noteq> None"
    by code_simp
  have c: "newRegExp fragment_platform good_com_anchored =
             Some (the (newRegExp fragment_platform good_com_anchored))"
    using p by (auto simp: fragment_platform_def fragment_newRegExp_def)
  have n: "newRegExp fragment_platform ''*'' = None"
    by code_simp
  have s: "the (newRegExp fragment_platform good_com_anchored) ''https://evil.com/x'' = False"
    by code_simp
  show ?thesis
    using validateUrlAgainstAllowlist_cases [OF v, of "[]"]
          validateUrlAgainstAllowlist_cases [OF v, of good_com_anchored]
          validateUrlAgainstAllowlist_cases [OF v, of "''*''"]
          v t c n s
    by simp
qed

text \<open>
  Claim C3 as stated fails: the validator does not require a match of the whole URL. The
  pattern \<open>good\.com\<close> accepts \<open>https://evil.com/?next=https://good.com/\<close>, which it does
  not match as a whole string (the pattern followed by an end assertion fails at the first
  character).
\<close>

theorem allowlist_full_match_counterexample:
  "valid (validateUrl fragment_platform ''https://evil.com/?next=https://good.com/''
            no_url_options)
   \<and> valid (validateUrlAgainstAllowlist fragment_platform
              ''https://evil.com/?next=https://good.com/'' good_com_unanchored)
   \<and> rx_match (the (rx_parse good_com_unanchored []) @ [(RxEol, False)]) True
        ''https://evil.com/?next=https://good.com/'' = False"
  by code_simp

section \<open>Properties of the package adapter's success test\<close>

lemma isSuccessResponse_markup:
  "isSuccessResponse (Markup s) status =
     (200 \<le> status \<and> status < 300 \<and>
      (includes_str s ''success'' \<or> includes_str s ''Package uploaded'' \<or>
       includes_str s ''Package installed'' \<or>
       \<not> (includes_str s ''error'' \<and> includes_str s ''Error'')))"
  by (auto simp: isSuccessResponse_def)

text \<open>
  Claim C7 at a failing input. Under status 200 the markup body
  \<open><html><body>Error: package rejected</body></html>\<close> holds the error keyword \<open>Error\<close>
  and no success keyword, and \<open>isSuccessResponse\<close> reports success: the two error tests
  are joined by \<open>||\<close>, so the body is refused only when it holds both \<open>error\<close> and
  \<open>Error\<close>.
\<close>

theorem isSuccessResponse_error_markup:
  "isSuccessResponse (Markup error_markup) 200 = True
   \<and> includes_str error_markup ''Error'' = True
   \<and> includes_str error_markup ''success'' = False
   \<and> includes_str error_markup ''Package uploaded'' = False
   \<and> includes_str error_markup ''Package installed'' = False"
  by code_simp

theorem isSuccessResponse_error_markup_witness:
  "isSuccessResponse (Markup ''<html><body>Error: package rejected</body></html>'') 200"
  using isSuccessResponse_error_markup by (simp add: error_markup_def)

section \<open>Properties of the shared loop shape\<close>

lemma dedup_loop_snoc:
  "dedup_loop skip body calls (xs @ [x]) =
     dedup_step skip body (dedup_loop skip body calls xs) x"
  by (simp add: dedup_loop_def)

lemma dedup_loop_length_processed:
  "length (fst (dedup_loop skip body calls xs)) = length xs \<and>
   fst (snd (dedup_loop skip body calls xs)) = set xs"
proof (induction xs rule: rev_induct)
  case Nil
  show ?case by (simp add: dedup_loop_def)
next
  case (snoc x xs)
  obtain rs P cs where st: "dedup_loop skip body calls xs = (rs, P, cs)"
    by (cases "dedup_loop skip body calls xs") auto
  with snoc have "length rs = length xs" "P = set xs" by simp_all
  then show ?case
    by (auto simp: dedup_loop_snoc st dedup_step_def)
qed

lemma new_Set_snoc: "new_Set (xs @ [x]) = js_set_add (new_Set xs) x"
  by (simp add: new_Set_def)

lemma set_new_Set: "set (new_Set xs) = set xs"
  by (induction xs rule: rev_induct) (auto simp: new_Set_snoc js_set_add_def new_Set_def)

lemma distinct_new_Set: "distinct (new_Set xs)"
  by (induction xs rule: rev_induct) (auto simp: new_Set_snoc js_set_add_def new_Set_def)

lemma new_Set_distinct: "distinct xs \<Longrightarrow> new_Set xs = xs"
  by (induction xs rule: rev_induct) (auto simp: new_Set_snoc js_set_add_def set_new_Set new_Set_def)

lemma new_Set_idem: "new_Set (new_Set xs) = new_Set xs"
  by (rule new_Set_distinct) (rule distinct_new_Set)

text \<open>
  When the calls that the body issues for an item do not depend on the calls before, the
  loop issues the calls of the first occurrences, in order.
\<close>

lemma dedup_loop_calls:
  assumes "\<And>x h. snd (body x h) = h @ ext x"
  shows "snd (snd (dedup_loop skip body calls xs)) = calls @ concat (map ext (new_Set xs))"
proof (induction xs rule: rev_induct)
  case Nil
  show ?case by (simp add: dedup_loop_def new_Set_def)
next
  case (snoc x xs)
  obtain rs P cs where st: "dedup_loop skip body calls xs = (rs, P, cs)"
    by (cases "dedup_loop skip body calls xs") auto
  have P: "P = set xs" using dedup_loop_length_processed [of skip body calls xs] st by simp
  have cs: "cs = calls @ concat (map ext (new_Set xs))" using snoc st by simp
  show ?case
    by (simp add: dedup_loop_snoc st dedup_step_def P cs assms new_Set_snoc js_set_add_def
                  set_new_Set)
qed

text \<open>The result at every position, in closed form.\<close>

lemma dedup_loop_nth:
  assumes ext: "\<And>x h. snd (body x h) = h @ ext x"
    and i: "i < length xs"
  shows "fst (dedup_loop skip body calls xs) ! i =
           (if xs ! i \<in> set (take i xs) then skip (xs ! i)
            else fst (body (xs ! i) (calls @ concat (map ext (new_Set (take i xs))))))"
  using i
proof (induction xs rule: rev_induct)
  case Nil
  then show ?case by simp
next
  case (snoc x xs)
  obtain rs P cs where st: "dedup_loop skip body calls xs = (rs, P, cs)"
    by (cases "dedup_loop skip body calls xs") auto
  have len: "length rs = length xs" and P: "P = set xs"
    using dedup_loop_length_processed [of skip body calls xs] st by simp_all
  have cs: "cs = calls @ concat (map ext (new_Set xs))"
    using dedup_loop_calls [of body ext skip calls xs, OF ext] st by simp
  show ?case
  proof (cases "i < length xs")
    case True
    then have "fst (dedup_loop skip body calls (xs @ [x])) ! i = rs ! i"
      by (simp add: dedup_loop_snoc st dedup_step_def nth_append len)
    also have "rs ! i = fst (dedup_loop skip body calls xs) ! i" by (simp add: st)
    finally show ?thesis using snoc.IH [OF True] True by (simp add: nth_append)
  next
    case False
    with snoc.prems have i: "i = length xs" by simp
    show ?thesis
      by (simp add: i dedup_loop_snoc st dedup_step_def nth_append len P cs)
  qed
qed

lemma dedup_loop_distinct:
  assumes ext: "\<And>x h. snd (body x h) = h @ ext x"
    and d: "distinct xs" and i: "i < length xs"
  shows "fst (dedup_loop skip body calls xs) ! i =
           fst (body (xs ! i) (calls @ concat (map ext (take i xs))))"
proof -
  have "xs ! i \<notin> set (take i xs)"
    using d i by (metis distinct_take id_take_nth_drop not_distinct_conv_prefix)
  moreover have "new_Set (take i xs) = take i xs"
    using d by (simp add: new_Set_distinct)
  ultimately show ?thesis using dedup_loop_nth [OF ext i, where skip = skip and calls = calls] by simp
qed

section \<open>Properties of the replication adapter\<close>

lemma dedup_loop_all:
  assumes "\<And>x. Q (skip x)" and "\<And>x h. Q (fst (body x h))"
  shows "list_all Q (fst (dedup_loop skip body calls xs))"
proof (induction xs rule: rev_induct)
  case Nil
  show ?case by (simp add: dedup_loop_def)
next
  case (snoc x xs)
  obtain rs P cs where st: "dedup_loop skip body calls xs = (rs, P, cs)"
    by (cases "dedup_loop skip body calls xs") auto
  with snoc have "list_all Q rs" by simp
  then show ?case
    by (simp add: dedup_loop_snoc st dedup_step_def assms)
qed

lemma replicateSinglePath_calls:
  "snd (replicateSinglePath client p act dry h) =
     h @ (if live_path dry p then [replication_call act p] else [])"
  by (simp add: replicateSinglePath_def live_path_def Let_def split: sum.splits)

lemma replicateSinglePath_path:
  "path (fst (replicateSinglePath client p act dry h)) = p"
  by (simp add: replicateSinglePath_def Let_def split: sum.splits)

lemma replicateSinglePath_requested:
  "requested (fst (replicateSinglePath client p act dry h)) = live_path dry p"
  by (simp add: replicateSinglePath_def live_path_def Let_def split: sum.splits)

lemma batch_core_step:
  "batch_core (process_path client act dry st p) =
     dedup_step (skipped_path act) (\<lambda>q h. replicateSinglePath client q act dry h)
       (batch_core st) p"
  by (simp add: batch_core_def process_path_def dedup_step_def split: prod.splits)

lemma batch_core_fold:
  "batch_core (foldl (process_path client act dry) st ps) =
     foldl (dedup_step (skipped_path act) (\<lambda>q h. replicateSinglePath client q act dry h))
       (batch_core st) ps"
  by (induction ps arbitrary: st) (simp_all add: batch_core_step)

lemma batch_core_sleeps: "batch_core (st \<lparr> st_sleeps := s \<rparr>) = batch_core st"
  by (simp add: batch_core_def)

lemma process_batches_core:
  "batch_core (process_batches client act throttleMs dry batches st) =
     foldl (dedup_step (skipped_path act) (\<lambda>q h. replicateSinglePath client q act dry h))
       (batch_core st) (concat batches)"
proof (induction batches arbitrary: st)
  case Nil
  show ?case by simp
next
  case (Cons batch rest)
  show ?case
    by (simp add: Cons.IH Let_def batch_core_sleeps batch_core_fold split: option.splits)
qed

lemma slice_window:
  assumes "0 \<le> i" and "0 \<le> b"
  shows "slice xs i (i + b) = take (nat b) (drop (nat i) xs)"
proof (cases "i \<le> int (length xs)")
  case True
  then have "nat (min (i + b) (int (length xs)) - i) = min (nat b) (length xs - nat i)"
    using assms by linarith
  then show ?thesis
    using True assms by (simp add: slice_def Let_def min_def)
next
  case False
  then show ?thesis using assms by (simp add: slice_def Let_def)
qed

lemma split_loop_total:
  assumes b: "1 \<le> b"
  shows "0 \<le> i \<Longrightarrow>
         \<exists>bs. split_loop paths b i acc = Some (acc @ bs) \<and> concat bs = drop (nat i) paths"
proof (induction "length paths - nat i" arbitrary: i acc rule: less_induct)
  case less
  show ?case
  proof (cases "i < int (length paths)")
    case False
    then have "drop (nat i) paths = []" by simp
    moreover have "split_loop paths b i acc = Some acc"
      using False by (subst split_loop.simps) simp
    ultimately show ?thesis by simp
  next
    case True
    have smaller: "length paths - nat (i + b) < length paths - nat i"
      using True b less.prems by linarith
    have nonneg: "0 \<le> i + b" using b less.prems by linarith
    obtain bs where bs: "split_loop paths b (i + b) (acc @ [slice paths i (i + b)]) =
                           Some ((acc @ [slice paths i (i + b)]) @ bs)"
                  and cat: "concat bs = drop (nat (i + b)) paths"
      using less.hyps [OF smaller nonneg] by blast
    have unfold: "split_loop paths b i acc =
                    split_loop paths b (i + b) (acc @ [slice paths i (i + b)])"
      using True by (subst split_loop.simps) simp
    have window: "slice paths i (i + b) = take (nat b) (drop (nat i) paths)"
      using less.prems b by (intro slice_window) simp_all
    have "nat (i + b) = nat b + nat i" using less.prems b by linarith
    then have "concat (slice paths i (i + b) # bs) = drop (nat i) paths"
      by (simp add: cat window drop_drop [symmetric] del: drop_drop)
    then show ?thesis using unfold bs by (intro exI [of _ "slice paths i (i + b) # bs"]) simp
  qed
qed

lemma split_batches_total:
  assumes "1 \<le> b"
  shows "\<exists>bs. split_batches paths (Some b) = Some bs \<and> concat bs = paths"
  using split_loop_total [OF assms, of 0 paths "[]"] by (simp add: split_batches_def)

text \<open>
  Whatever the batches, the results and the calls of \<open>performReplication\<close> are those of
  the shared loop over the concatenated batches.
\<close>

lemma performReplication_Some:
  assumes "performReplication client options calls = Some (out, cs, sl)"
  shows "\<exists>batches.
           split_batches (new_Set (opt_paths options))
             (spread_over 10 (opt_batchSize options)) = Some batches \<and>
           (repl_results out, set (concat batches), cs) =
             dedup_loop (skipped_path (opt_action options))
               (\<lambda>q h. replicateSinglePath client q (opt_action options)
                         (spread_over False (opt_dryRun options) = Some True) h)
               calls (concat batches) \<and>
           repl_ok out = (repl_failureCount out = 0) \<and>
           totalPaths out = length (repl_results out) \<and>
           repl_successCount out = length (filter (\<lambda>r. ok r) (repl_results out)) \<and>
           repl_failureCount out = length (filter (\<lambda>r. \<not> ok r) (repl_results out)) \<and>
           repl_dryRun out = spread_over False (opt_dryRun options)"
proof -
  let ?dry = "spread_over False (opt_dryRun options) = Some True"
  let ?body = "\<lambda>q h. replicateSinglePath client q (opt_action options) ?dry h"
  obtain batches where
    split: "split_batches (new_Set (opt_paths options))
              (spread_over 10 (opt_batchSize options)) = Some batches"
    using assms
    by (cases "split_batches (new_Set (opt_paths options))
                 (spread_over 10 (opt_batchSize options))")
       (simp_all add: performReplication_def processBatches_def Let_def)
  let ?st = "process_batches client (opt_action options)
               (spread_over 100 (opt_throttleMs options)) ?dry batches
               \<lparr> st_results = [], st_processed = {}, st_calls = calls, st_sleeps = [] \<rparr>"
  have core: "batch_core ?st =
                dedup_loop (skipped_path (opt_action options)) ?body calls (concat batches)"
    unfolding process_batches_core dedup_loop_def by (simp add: batch_core_def)
  have proc: "st_processed ?st = set (concat batches)"
  proof -
    have "fst (snd (batch_core ?st)) = set (concat batches)"
      unfolding core
      using dedup_loop_length_processed
              [of "skipped_path (opt_action options)" ?body calls "concat batches"]
      by blast
    then show ?thesis by (simp add: batch_core_def)
  qed
  have out: "out = \<lparr> repl_ok = (length (filter (\<lambda>r. \<not> ok r) (st_results ?st)) = 0),
                     totalPaths = length (st_results ?st),
                     repl_successCount = length (filter (\<lambda>r. ok r) (st_results ?st)),
                     repl_failureCount = length (filter (\<lambda>r. \<not> ok r) (st_results ?st)),
                     repl_dryRun = spread_over False (opt_dryRun options),
                     repl_results = st_results ?st \<rparr>"
    and cs: "cs = st_calls ?st"
    using assms split by (simp_all add: performReplication_def processBatches_def Let_def)
  show ?thesis
    using split core proc by (intro exI [of _ batches]) (simp add: out cs batch_core_def)
qed

text \<open>With a batch size of one or more, given or by default, the run returns.\<close>

lemma performReplication_returns:
  assumes "opt_batchSize options = Absent \<or> (\<exists>b. opt_batchSize options = Given b \<and> 1 \<le> b)"
  shows "\<exists>out cs sl.
           performReplication client options calls = Some (out, cs, sl) \<and>
           (repl_results out, set (opt_paths options), cs) =
             dedup_loop (skipped_path (opt_action options))
               (\<lambda>q h. replicateSinglePath client q (opt_action options)
                         (spread_over False (opt_dryRun options) = Some True) h)
               calls (new_Set (opt_paths options))"
proof -
  obtain b where b: "spread_over 10 (opt_batchSize options) = Some b" "1 \<le> b"
    using assms by (cases "opt_batchSize options") auto
  obtain batches where
    split: "split_batches (new_Set (opt_paths options)) (Some b) = Some batches"
    and cat: "concat batches = new_Set (opt_paths options)"
    using split_batches_total [OF b(2)] by blast
  then obtain out cs sl where run: "performReplication client options calls = Some (out, cs, sl)"
    by (simp add: performReplication_def processBatches_def Let_def b)
  obtain batches' where
    "split_batches (new_Set (opt_paths options))
       (spread_over 10 (opt_batchSize options)) = Some batches'"
    and loop: "(repl_results out, set (concat batches'), cs) =
       dedup_loop (skipped_path (opt_action options))
         (\<lambda>q h. replicateSinglePath client q (opt_action options)
                   (spread_over False (opt_dryRun options) = Some True) h)
         calls (concat batches')"
    using performReplication_Some [OF run] by blast
  then have "batches' = batches" using split b by simp
  then show ?thesis using run loop cat by (auto simp: set_new_Set)
qed

text \<open>
  With the batch size present and \<open>undefined\<close> no path is processed: the output is empty
  and \<open>ok\<close>, whatever the paths.
\<close>

lemma performReplication_undefined_batchSize:
  assumes "opt_batchSize options = Undefined"
  shows "performReplication client options calls =
           Some (\<lparr> repl_ok = True, totalPaths = 0, repl_successCount = 0, repl_failureCount = 0,
                   repl_dryRun = spread_over False (opt_dryRun options), repl_results = [] \<rparr>,
                 calls, [])"
  using assms
  by (simp add: performReplication_def processBatches_def split_batches_def slice_def Let_def
           split: option.splits)

section \<open>Properties of the cache purge loop\<close>

lemma concat_map_if:
  "concat (map (\<lambda>x. if P x then [f x] else []) xs) = map f (filter P xs)"
  by (induction xs) simp_all




lemma purge_fresh_url_calls:
  "snd (purge_fresh_url pf net m allowlistRegex dry customHeaders timeout u h) =
     h @ (if live_url pf allowlistRegex dry u then [purge_call m customHeaders timeout u] else [])"
  by (simp add: purge_fresh_url_def live_url_def Let_def split: sum.splits)

lemma purge_fresh_url_requested:
  "purge_requested (fst (purge_fresh_url pf net m allowlistRegex dry customHeaders timeout u h)) =
     live_url pf allowlistRegex dry u"
  by (simp add: purge_fresh_url_def live_url_def Let_def split: sum.splits)

lemma purge_fresh_url_url:
  "url (fst (purge_fresh_url pf net m allowlistRegex dry customHeaders timeout u h)) = u"
  by (simp add: purge_fresh_url_def Let_def split: sum.splits)

lemma purge_core_step:
  "purge_core (purge_url pf net m allowlistRegex dry customHeaders timeout st u) =
     dedup_step (skipped_url m)
       (purge_fresh_url pf net m allowlistRegex dry customHeaders timeout) (purge_core st) u"
  by (simp add: purge_core_def purge_url_def dedup_step_def split: prod.splits)

lemma purge_core_fold:
  "purge_core (foldl (purge_url pf net m allowlistRegex dry customHeaders timeout) st us) =
     foldl (dedup_step (skipped_url m)
              (purge_fresh_url pf net m allowlistRegex dry customHeaders timeout))
       (purge_core st) us"
  by (induction us arbitrary: st) (simp_all add: purge_core_step)

lemma purge_urls_loop:
  "purge_core (purge_urls pf net m allowlistRegex dry customHeaders timeout urls calls) =
     dedup_loop (skipped_url m)
       (purge_fresh_url pf net m allowlistRegex dry customHeaders timeout) calls urls"
  unfolding purge_urls_def purge_core_fold dedup_loop_def by (simp add: purge_core_def)

lemma purge_urls_length:
  "length (ps_results (purge_urls pf net m allowlistRegex dry customHeaders timeout urls calls)) =
     length urls"
proof -
  have "length (fst (purge_core
          (purge_urls pf net m allowlistRegex dry customHeaders timeout urls calls))) = length urls"
    unfolding purge_urls_loop using dedup_loop_length_processed by blast
  then show ?thesis by (simp add: purge_core_def)
qed

lemma purge_urls_calls:
  "ps_calls (purge_urls pf net m allowlistRegex dry customHeaders timeout urls calls) =
     calls @ map (purge_call m customHeaders timeout)
               (filter (live_url pf allowlistRegex dry) (new_Set urls))"
proof -
  have "snd (snd (purge_core
          (purge_urls pf net m allowlistRegex dry customHeaders timeout urls calls))) =
        calls @ concat (map (\<lambda>u. if live_url pf allowlistRegex dry u
                                  then [purge_call m customHeaders timeout u] else [])
                            (new_Set urls))"
    unfolding purge_urls_loop by (rule dedup_loop_calls) (rule purge_fresh_url_calls)
  then show ?thesis by (simp add: purge_core_def concat_map_if)
qed

lemma purge_urls_nth:
  assumes "i < length urls"
  shows "ps_results (purge_urls pf net m allowlistRegex dry customHeaders timeout urls calls) ! i =
           (if urls ! i \<in> set (take i urls) then skipped_url m (urls ! i)
            else fst (purge_fresh_url pf net m allowlistRegex dry customHeaders timeout (urls ! i)
                        (calls @ map (purge_call m customHeaders timeout)
                                   (filter (live_url pf allowlistRegex dry)
                                           (new_Set (take i urls))))))"
proof -
  have "fst (purge_core
          (purge_urls pf net m allowlistRegex dry customHeaders timeout urls calls)) ! i =
        (if urls ! i \<in> set (take i urls) then skipped_url m (urls ! i)
         else fst (purge_fresh_url pf net m allowlistRegex dry customHeaders timeout (urls ! i)
                     (calls @ concat (map (\<lambda>u. if live_url pf allowlistRegex dry u
                                                then [purge_call m customHeaders timeout u]
                                                else [])
                                          (new_Set (take i urls))))))"
    unfolding purge_urls_loop
    by (rule dedup_loop_nth [OF purge_fresh_url_calls assms])
  then show ?thesis by (simp add: purge_core_def concat_map_if)
qed

lemma purge_urls_all:
  assumes "\<And>u. Q (skipped_url m u)"
    and "\<And>u h. Q (fst (purge_fresh_url pf net m allowlistRegex dry customHeaders timeout u h))"
  shows "list_all Q
           (ps_results (purge_urls pf net m allowlistRegex dry customHeaders timeout urls calls))"
proof -
  have "list_all Q (fst (purge_core
          (purge_urls pf net m allowlistRegex dry customHeaders timeout urls calls)))"
    unfolding purge_urls_loop by (rule dedup_loop_all) (rule assms)+
  then show ?thesis by (simp add: purge_core_def)
qed

lemma purge_item_try_Inr:
  assumes "fst (purge_item_try pf net params calls) = Inr out"
  shows "purge_results out =
           ps_results (purge_urls pf net (par_method params) (par_allowlistRegex params)
              (par_dryRun params) (build_customHeaders (par_customHeaders params))
              (case par_timeoutMs params of None \<Rightarrow> 5000 | Some t \<Rightarrow> if t = 0 then 5000 else t)
              (par_urls params) calls)
         \<and> purge_ok out = (purge_failureCount out = 0)
         \<and> totalUrls out = length (purge_results out)
         \<and> purge_successCount out = length (filter (\<lambda>r. ok r) (purge_results out))
         \<and> purge_failureCount out = length (filter (\<lambda>r. \<not> ok r) (purge_results out))
         \<and> purge_dryRun out = par_dryRun params
         \<and> purge_error out = None"
  using assms by (auto simp: purge_item_try_def Let_def split: if_splits)

lemma purge_item_try_calls:
  "snd (purge_item_try pf net params calls) =
     (if par_urls params = [] then calls
      else ps_calls (purge_urls pf net (par_method params) (par_allowlistRegex params)
              (par_dryRun params) (build_customHeaders (par_customHeaders params))
              (case par_timeoutMs params of None \<Rightarrow> 5000 | Some t \<Rightarrow> if t = 0 then 5000 else t)
              (par_urls params) calls))"
  by (simp add: purge_item_try_def Let_def)

lemma purge_item_calls:
  "snd (purge_item pf net params calls) = snd (purge_item_try pf net params calls)"
  by (simp add: purge_item_def split: prod.splits sum.splits)

lemma purge_item_Inr:
  assumes "fst (purge_item pf net params calls) = Inr out"
  shows "fst (purge_item_try pf net params calls) = Inr out \<or>
         (par_continueOnFail params \<and>
          (\<exists>err. fst (purge_item_try pf net params calls) = Inl err \<and>
                 out = \<lparr> purge_ok = False, totalUrls = 0, purge_successCount = 0,
                         purge_failureCount = 0, purge_dryRun = False, purge_results = [],
                         purge_error = Some err \<rparr>))"
  using assms by (auto simp: purge_item_def split: prod.splits sum.splits if_splits)

section \<open>Properties of the batched operations\<close>


lemma counts_add_up:
  "length (filter (\<lambda>r. P r) rs) + length (filter (\<lambda>r. \<not> P r) rs) = length rs"
  by (rule sum_length_filter_compl)

text \<open>
  With a batch size of one or more, \<open>performReplication\<close> returns, with one result per
  distinct path in first-seen order, each the result of \<open>replicateSinglePath\<close> on the calls
  issued before it; the calls issued are those of the distinct paths that are valid, in
  order, and none in a dry run.
\<close>

lemma performReplication_closed_form:
  assumes "opt_batchSize options = Absent \<or> (\<exists>b. opt_batchSize options = Given b \<and> 1 \<le> b)"
  shows "\<exists>out cs sl.
           performReplication client options calls = Some (out, cs, sl) \<and>
           length (repl_results out) = length (new_Set (opt_paths options)) \<and>
           (\<forall>i<length (new_Set (opt_paths options)).
              repl_results out ! i =
                fst (replicateSinglePath client (new_Set (opt_paths options) ! i)
                       (opt_action options)
                       (spread_over False (opt_dryRun options) = Some True)
                       (calls @ map (replication_call (opt_action options))
                                  (filter (live_path
                                             (spread_over False (opt_dryRun options) = Some True))
                                          (take i (new_Set (opt_paths options))))))) \<and>
           cs = calls @ map (replication_call (opt_action options))
                          (filter (live_path (spread_over False (opt_dryRun options) = Some True))
                                  (new_Set (opt_paths options)))"
proof -
  let ?ps = "new_Set (opt_paths options)"
  let ?act = "opt_action options"
  let ?dry = "spread_over False (opt_dryRun options) = Some True"
  let ?body = "\<lambda>q h. replicateSinglePath client q ?act ?dry h"
  let ?ext = "\<lambda>p. if live_path ?dry p then [replication_call ?act p] else []"
  let ?loop = "dedup_loop (skipped_path ?act) ?body calls ?ps"
  obtain out cs sl where run: "performReplication client options calls = Some (out, cs, sl)"
    and loop: "(repl_results out, set (opt_paths options), cs) = ?loop"
    using performReplication_returns [OF assms] by blast
  have res: "repl_results out = fst ?loop" and calls: "cs = snd (snd ?loop)"
    using loop [symmetric] by simp_all
  have ext: "\<And>x h. snd (?body x h) = h @ ?ext x"
    by (rule replicateSinglePath_calls)
  have len: "length (repl_results out) = length ?ps"
    unfolding res using dedup_loop_length_processed by blast
  have nth: "repl_results out ! i =
               fst (?body (?ps ! i)
                      (calls @ map (replication_call ?act) (filter (live_path ?dry) (take i ?ps))))"
    if "i < length ?ps" for i
    unfolding res
    using dedup_loop_distinct [of ?body ?ext ?ps i "skipped_path ?act" calls,
                               OF ext distinct_new_Set that]
    by (simp add: concat_map_if)
  have "cs = calls @ concat (map ?ext (new_Set ?ps))"
    unfolding calls by (rule dedup_loop_calls) (rule ext)
  then have cs: "cs = calls @ map (replication_call ?act) (filter (live_path ?dry) ?ps)"
    by (simp add: new_Set_idem concat_map_if)
  show ?thesis using run len nth cs by blast
qed

lemma performReplication_paths:
  assumes "opt_batchSize options = Absent \<or> (\<exists>b. opt_batchSize options = Given b \<and> 1 \<le> b)"
    and "performReplication client options calls = Some (out, cs, sl)"
  shows "map path (repl_results out) = new_Set (opt_paths options)"
proof -
  obtain out' cs' sl' where run: "performReplication client options calls = Some (out', cs', sl')"
    and len: "length (repl_results out') = length (new_Set (opt_paths options))"
    and nth: "\<forall>i<length (new_Set (opt_paths options)).
                repl_results out' ! i =
                  fst (replicateSinglePath client (new_Set (opt_paths options) ! i)
                         (opt_action options)
                         (spread_over False (opt_dryRun options) = Some True)
                         (calls @ map (replication_call (opt_action options))
                                    (filter (live_path
                                               (spread_over False (opt_dryRun options) = Some True))
                                            (take i (new_Set (opt_paths options))))))"
    using performReplication_closed_form [OF assms(1), of client calls] by blast
  have same: "out' = out" using run assms(2) by simp
  show ?thesis
    using len nth unfolding same
    by (intro nth_equalityI) (simp_all add: replicateSinglePath_path)
qed

lemma purge_urls_urls:
  "map url (ps_results (purge_urls pf net m allowlistRegex dry customHeaders timeout urls calls))
     = urls"
  by (intro nth_equalityI)
     (simp_all add: purge_urls_length purge_urls_nth purge_fresh_url_url skipped_url_def)

section \<open>Concrete runs\<close>

lemma flaky_run:
  "performReplication flaky_client flaky_options [] =
     Some (\<lparr> repl_ok = False, totalPaths = 3, repl_successCount = 2, repl_failureCount = 1,
             repl_dryRun = Some False,
             repl_results =
               [\<lparr> ok = True, statusCode = Num 200, path = ''/content/a'', action = activate,
                   requested = True, message = ''Successfully activated'' \<rparr>,
                \<lparr> ok = False, statusCode = Num 500, path = ''/content/bad'', action = activate,
                   requested = True, message = ''Replication failed: socket hang up'' \<rparr>,
                \<lparr> ok = True, statusCode = Num 200, path = ''/content/c'', action = activate,
                   requested = True, message = ''Successfully activated'' \<rparr>] \<rparr>,
           [replication_call activate ''/content/a'',
            replication_call activate ''/content/bad'',
            replication_call activate ''/content/c''],
           [])"
  by code_simp

lemma dry_run:
  "performReplication flaky_client dry_options [] =
     Some (\<lparr> repl_ok = False, totalPaths = 3, repl_successCount = 2, repl_failureCount = 1,
             repl_dryRun = Some True,
             repl_results =
               [\<lparr> ok = True, statusCode = Num 200, path = ''/content/a'', action = activate,
                   requested = False, message = ''[DRY RUN] Would activate path'' \<rparr>,
                \<lparr> ok = True, statusCode = Num 200, path = ''/content/bad'', action = activate,
                   requested = False, message = ''[DRY RUN] Would activate path'' \<rparr>,
                \<lparr> ok = False, statusCode = Num 400, path = ''not a path'', action = activate,
                   requested = False, message = ''Path must start with /'' \<rparr>] \<rparr>,
           [], [])"
  by code_simp

lemma mixed_run:
  "purge_item fragment_platform ok_net mixed_parameters [] =
     (Inr \<lparr> purge_ok = False, totalUrls = 4, purge_successCount = 3, purge_failureCount = 1,
             purge_dryRun = False,
             purge_results =
               [\<lparr> ok = True, statusCode = Num 200, url = ''https://good.com/a'',
                   purge_method = PURGE, purge_requested = True,
                   purge_message = ''Purge successful'' \<rparr>,
                \<lparr> ok = False, statusCode = Num 403, url = ''https://evil.com/x'',
                   purge_method = PURGE, purge_requested = False,
                   purge_message =
                     ''URL does not match allowlist pattern: '' @ good_com_anchored \<rparr>,
                \<lparr> ok = True, statusCode = Num 200, url = ''https://good.com/a'',
                   purge_method = PURGE, purge_requested = False,
                   purge_message = ''Skipped (duplicate URL in this batch)'' \<rparr>,
                \<lparr> ok = True, statusCode = Num 200, url = ''https://evil.com/x'',
                   purge_method = PURGE, purge_requested = False,
                   purge_message = ''Skipped (duplicate URL in this batch)'' \<rparr>],
             purge_error = None \<rparr>,
      [HttpRequest ''PURGE'' ''https://good.com/a'' [] 5000])"
  by code_simp

lemma ftp_run:
  "purge_item fragment_platform ok_net ftp_parameters [] =
     (Inr \<lparr> purge_ok = False, totalUrls = 2, purge_successCount = 1, purge_failureCount = 1,
             purge_dryRun = False,
             purge_results =
               [\<lparr> ok = False, statusCode = Num 400, url = ''ftp://good.com/a'',
                   purge_method = PURGE, purge_requested = False,
                   purge_message = ''URL must use HTTP or HTTPS protocol'' \<rparr>,
                \<lparr> ok = True, statusCode = Num 200, url = ''ftp://good.com/a'',
                   purge_method = PURGE, purge_requested = False,
                   purge_message = ''Skipped (duplicate URL in this batch)'' \<rparr>],
             purge_error = None \<rparr>,
      [])"
  by code_simp

lemma down_run:
  "purge_item fragment_platform down_net down_parameters [] =
     (Inr \<lparr> purge_ok = False, totalUrls = 2, purge_successCount = 0, purge_failureCount = 2,
             purge_dryRun = False,
             purge_results =
               [\<lparr> ok = False, statusCode = Num 0, url = ''https://good.com/a'',
                   purge_method = PURGE, purge_requested = True,
                   purge_message = ''Request failed: socket hang up'' \<rparr>,
                \<lparr> ok = False, statusCode = Num 0, url = ''https://good.com/b'',
                   purge_method = PURGE, purge_requested = True,
                   purge_message = ''Request failed: socket hang up'' \<rparr>],
             purge_error = None \<rparr>,
      [HttpRequest ''PURGE'' ''https://good.com/a'' [] 5000,
       HttpRequest ''PURGE'' ''https://good.com/b'' [] 5000])"
  by code_simp

lemma dry_purge_run:
  "purge_item fragment_platform down_net dry_parameters [] =
     (Inr \<lparr> purge_ok = True, totalUrls = 2, purge_successCount = 2, purge_failureCount = 0,
             purge_dryRun = True,
             purge_results =
               [\<lparr> ok = True, statusCode = Num 200, url = ''https://good.com/a'',
                   purge_method = PURGE, purge_requested = False,
                   purge_message = ''[DRY RUN] Would send PURGE request'' \<rparr>,
                \<lparr> ok = True, statusCode = Num 200, url = ''https://good.com/a'',
                   purge_method = PURGE, purge_requested = False,
                   purge_message = ''Skipped (duplicate URL in this batch)'' \<rparr>],
             purge_error = None \<rparr>,
      [])"
  by code_simp

section \<open>Properties of the loop bodies\<close>

lemma replicateSinglePath_thrown:
  assumes "live_path dry p" and "client h (replication_call act p) = Inl e"
  shows "fst (replicateSinglePath client p act dry h) =
           \<lparr> ok = False, statusCode = errorStatus e, path = p, action = act, requested = True,
             message = ''Replication failed: '' @ errorMessage e \<rparr>"
  using assms by (simp add: replicateSinglePath_def live_path_def Let_def)

lemma purge_fresh_url_thrown:
  assumes "live_url pf allowlistRegex dry u"
    and "net h (purge_call m customHeaders timeout u) = Inl e"
  shows "fst (purge_fresh_url pf net m allowlistRegex dry customHeaders timeout u h) =
           \<lparr> ok = False, statusCode = Num 0, url = u, purge_method = m, purge_requested = True,
             purge_message = ''Request failed: '' @ errorMessage e \<rparr>"
  using assms by (simp add: purge_fresh_url_def live_url_def Let_def)

lemma validateUrlAgainstAllowlist_rejects_invalid:
  "\<not> valid (validateUrl pf u no_url_options) \<Longrightarrow>
   \<not> valid (validateUrlAgainstAllowlist pf u allowlistRegex)"
  by (simp add: validateUrlAgainstAllowlist_def Let_def)

lemma purge_fresh_url_rejected:
  assumes "\<not> valid (validateUrlAgainstAllowlist pf u allowlistRegex)"
  shows "ok (fst (purge_fresh_url pf net m allowlistRegex dry customHeaders timeout u h)) = False
       \<and> purge_requested
           (fst (purge_fresh_url pf net m allowlistRegex dry customHeaders timeout u h)) = False
       \<and> statusCode (fst (purge_fresh_url pf net m allowlistRegex dry customHeaders timeout u h)) =
           (if valid (validateUrl pf u no_url_options) then Num 403 else Num 400)"
  using assms by (simp add: purge_fresh_url_def Let_def)




lemma filter_has:
  assumes "i < length xs" and "P (xs ! i)"
  shows "1 \<le> length (filter P xs)"
proof -
  have "xs ! i \<in> set (filter P xs)" using assms by simp
  then have "filter P xs \<noteq> []" by (metis empty_iff list.set(1))
  then show ?thesis by (simp add: Suc_le_eq)
qed

section \<open>Batched operations: totals, dry run, thrown errors and duplicates\<close>

text \<open>
  Claim C1, amended. Every output of \<open>performReplication\<close> and every output that the
  cache purge node computes from its results satisfies
  \<open>total = successCount + failureCount = length results\<close> and \<open>ok = (failureCount = 0)\<close>;
  \<open>performReplication\<close> returns when the batch size is one or more. The output that the
  cache purge node emits for a failure it tolerates (it carries the error message) has no
  results and all counts zero, so the equations of the counts hold for it, and its \<open>ok\<close>
  is false: for every output of the node, \<open>ok\<close> implies \<open>failureCount = 0\<close>.
\<close>

theorem batch_output_counts:
  "(performReplication client options calls = Some (out, cs, sl) \<longrightarrow>
      totalPaths out = repl_successCount out + repl_failureCount out \<and>
      totalPaths out = length (repl_results out) \<and>
      repl_ok out = (repl_failureCount out = 0))
   \<and> (opt_batchSize options = Absent \<or> (\<exists>b. opt_batchSize options = Given b \<and> 1 \<le> b) \<longrightarrow>
        performReplication client options calls \<noteq> None)
   \<and> (fst (purge_item pf net params pcalls) = Inr pout \<longrightarrow>
        totalUrls pout = purge_successCount pout + purge_failureCount pout \<and>
        totalUrls pout = length (purge_results pout) \<and>
        (purge_ok pout \<longrightarrow> purge_failureCount pout = 0) \<and>
        (purge_error pout = None \<longrightarrow> purge_ok pout = (purge_failureCount pout = 0)) \<and>
        (purge_error pout \<noteq> None \<longrightarrow> \<not> purge_ok pout \<and> purge_results pout = []))"
proof -
  have repl: "totalPaths out = repl_successCount out + repl_failureCount out \<and>
              totalPaths out = length (repl_results out) \<and>
              repl_ok out = (repl_failureCount out = 0)"
    if "performReplication client options calls = Some (out, cs, sl)"
  proof -
    from performReplication_Some [OF that]
    have f: "repl_ok out = (repl_failureCount out = 0)"
      "totalPaths out = length (repl_results out)"
      "repl_successCount out = length (filter (\<lambda>r. ok r) (repl_results out))"
      "repl_failureCount out = length (filter (\<lambda>r. \<not> ok r) (repl_results out))"
      by blast+
    have "totalPaths out = repl_successCount out + repl_failureCount out"
      unfolding f(2) f(3) f(4) using counts_add_up [of ok "repl_results out"] by simp
    then show ?thesis using f(1) f(2) by simp
  qed
  have returns: "performReplication client options calls \<noteq> None"
    if "opt_batchSize options = Absent \<or> (\<exists>b. opt_batchSize options = Given b \<and> 1 \<le> b)"
    using performReplication_returns [OF that, of client calls] by auto
  have purge: "totalUrls pout = purge_successCount pout + purge_failureCount pout \<and>
               totalUrls pout = length (purge_results pout) \<and>
               (purge_ok pout \<longrightarrow> purge_failureCount pout = 0) \<and>
               (purge_error pout = None \<longrightarrow> purge_ok pout = (purge_failureCount pout = 0)) \<and>
               (purge_error pout \<noteq> None \<longrightarrow> \<not> purge_ok pout \<and> purge_results pout = [])"
    if "fst (purge_item pf net params pcalls) = Inr pout"
    using purge_item_Inr [OF that]
  proof
    assume "fst (purge_item_try pf net params pcalls) = Inr pout"
    from purge_item_try_Inr [OF this]
    have f: "purge_ok pout = (purge_failureCount pout = 0)"
      "totalUrls pout = length (purge_results pout)"
      "purge_successCount pout = length (filter (\<lambda>r. ok r) (purge_results pout))"
      "purge_failureCount pout = length (filter (\<lambda>r. \<not> ok r) (purge_results pout))"
      "purge_error pout = None"
      by blast+
    have "totalUrls pout = purge_successCount pout + purge_failureCount pout"
      unfolding f(2) f(3) f(4) using counts_add_up [of ok "purge_results pout"] by simp
    then show ?thesis using f(1) f(2) f(5) by simp
  next
    assume "par_continueOnFail params \<and>
            (\<exists>err. fst (purge_item_try pf net params pcalls) = Inl err \<and>
                   pout = \<lparr> purge_ok = False, totalUrls = 0, purge_successCount = 0,
                            purge_failureCount = 0, purge_dryRun = False, purge_results = [],
                            purge_error = Some err \<rparr>)"
    then show ?thesis by auto
  qed
  show ?thesis using repl returns purge by blast
qed

theorem batch_output_counts_witness:
  "performReplication flaky_client flaky_options [] \<noteq> None
   \<and> totalPaths (fst (the (performReplication flaky_client flaky_options []))) = 3
   \<and> repl_successCount (fst (the (performReplication flaky_client flaky_options []))) = 2
   \<and> repl_failureCount (fst (the (performReplication flaky_client flaky_options []))) = 1
   \<and> repl_ok (fst (the (performReplication flaky_client flaky_options []))) = False
   \<and> isl (fst (purge_item fragment_platform ok_net mixed_parameters [])) = False
   \<and> totalUrls (projr (fst (purge_item fragment_platform ok_net mixed_parameters []))) = 4
   \<and> purge_successCount
         (projr (fst (purge_item fragment_platform ok_net mixed_parameters []))) = 3
   \<and> purge_failureCount
         (projr (fst (purge_item fragment_platform ok_net mixed_parameters []))) = 1
   \<and> purge_ok (projr (fst (purge_item fragment_platform ok_net mixed_parameters []))) = False"
  using batch_output_counts
          [of flaky_client flaky_options "[]"
              "fst (the (performReplication flaky_client flaky_options []))"
              "fst (snd (the (performReplication flaky_client flaky_options [])))"
              "snd (snd (the (performReplication flaky_client flaky_options [])))"
              fragment_platform ok_net mixed_parameters "[]"
              "projr (fst (purge_item fragment_platform ok_net mixed_parameters []))"]
  by (simp add: flaky_run mixed_run)

text \<open>
  Claim C1 as stated fails for the output that the cache purge node emits when the
  workflow fails on errors and the host tolerates failures: one URL that the allowlist
  rejects gives an output with \<open>ok = false\<close> and \<open>failureCount = 0\<close>.
\<close>

theorem tolerated_failure_output_counterexample:
  "isl (fst (purge_item fragment_platform ok_net tolerant_parameters [])) = False
   \<and> purge_ok (projr (fst (purge_item fragment_platform ok_net tolerant_parameters []))) = False
   \<and> purge_failureCount
         (projr (fst (purge_item fragment_platform ok_net tolerant_parameters []))) = 0
   \<and> purge_results
         (projr (fst (purge_item fragment_platform ok_net tolerant_parameters []))) = []"
  by code_simp

text \<open>
  Claim C4. With \<open>dryRun = true\<close>, \<open>performReplication\<close>, the cache purge node and
  \<open>uploadPackage\<close> return the list of calls they received, so none of them issues a call;
  every per-path and per-URL result has \<open>requested = false\<close>, and the package output
  reports nothing uploaded and nothing installed. \<open>performReplication\<close> returns when the
  batch size is one or more.
\<close>

theorem dry_run_issues_no_call:
  "(opt_dryRun options = Given True \<longrightarrow>
      (performReplication client options calls = Some (out, cs, sl) \<longrightarrow>
         cs = calls \<and> list_all (\<lambda>r. \<not> requested r) (repl_results out))
      \<and> (opt_batchSize options = Absent \<or> (\<exists>b. opt_batchSize options = Given b \<and> 1 \<le> b) \<longrightarrow>
           performReplication client options calls \<noteq> None))
   \<and> (par_dryRun params \<longrightarrow>
        snd (purge_item pf net params pcalls) = pcalls
        \<and> (fst (purge_item pf net params pcalls) = Inr pout \<longrightarrow>
             list_all (\<lambda>r. \<not> purge_requested r) (purge_results pout)))
   \<and> (pkg_dryRun poptions = Some True \<longrightarrow>
        snd (uploadPackage pp pclient packageData poptions ucalls) = ucalls
        \<and> \<not> uploaded (fst (uploadPackage pp pclient packageData poptions ucalls))
        \<and> \<not> installed (fst (uploadPackage pp pclient packageData poptions ucalls))
        \<and> dryRun (fst (uploadPackage pp pclient packageData poptions ucalls)))"
proof -
  have repl: "cs = calls \<and> list_all (\<lambda>r. \<not> requested r) (repl_results out)"
    if dry: "opt_dryRun options = Given True"
      and run: "performReplication client options calls = Some (out, cs, sl)"
  proof -
    let ?body = "\<lambda>q h. replicateSinglePath client q (opt_action options) True h"
    obtain batches where
      loop: "(repl_results out, set (concat batches), cs) =
               dedup_loop (skipped_path (opt_action options)) ?body calls (concat batches)"
      using performReplication_Some [OF run] dry by auto
    have res: "repl_results out =
                 fst (dedup_loop (skipped_path (opt_action options)) ?body calls (concat batches))"
      and cs: "cs = snd (snd (dedup_loop (skipped_path (opt_action options)) ?body calls
                                 (concat batches)))"
      using loop [symmetric] by simp_all
    have "cs = calls @ concat (map (\<lambda>p. if live_path True p
                                          then [replication_call (opt_action options) p]
                                          else [])
                                   (new_Set (concat batches)))"
      unfolding cs by (rule dedup_loop_calls) (rule replicateSinglePath_calls)
    then have "cs = calls" by (simp add: live_path_def)
    moreover have "list_all (\<lambda>r. \<not> requested r) (repl_results out)"
      unfolding res
      by (rule dedup_loop_all)
         (simp_all add: skipped_path_def replicateSinglePath_requested live_path_def)
    ultimately show ?thesis by simp
  qed
  have returns: "performReplication client options calls \<noteq> None"
    if "opt_batchSize options = Absent \<or> (\<exists>b. opt_batchSize options = Given b \<and> 1 \<le> b)"
    using performReplication_returns [OF that, of client calls] by auto
  have purge_calls: "snd (purge_item pf net params pcalls) = pcalls"
    if "par_dryRun params"
    using that
    by (simp add: purge_item_calls purge_item_try_calls purge_urls_calls live_url_def)
  have purge_results: "list_all (\<lambda>r. \<not> purge_requested r) (purge_results pout)"
    if dry: "par_dryRun params" and item: "fst (purge_item pf net params pcalls) = Inr pout"
    using purge_item_Inr [OF item]
  proof
    assume "fst (purge_item_try pf net params pcalls) = Inr pout"
    from purge_item_try_Inr [OF this]
    have "purge_results pout =
            ps_results (purge_urls pf net (par_method params) (par_allowlistRegex params)
              (par_dryRun params) (build_customHeaders (par_customHeaders params))
              (case par_timeoutMs params of None \<Rightarrow> 5000 | Some t \<Rightarrow> if t = 0 then 5000 else t)
              (par_urls params) pcalls)"
      by blast
    then show ?thesis
      using dry
      by (simp only:)
         (rule purge_urls_all; simp add: skipped_url_def purge_fresh_url_requested live_url_def)
  next
    assume "par_continueOnFail params \<and>
            (\<exists>err. fst (purge_item_try pf net params pcalls) = Inl err \<and>
                   pout = \<lparr> purge_ok = False, totalUrls = 0, purge_successCount = 0,
                            purge_failureCount = 0, purge_dryRun = False, purge_results = [],
                            purge_error = Some err \<rparr>)"
    then show ?thesis by auto
  qed
  have package: "snd (uploadPackage pp pclient packageData poptions ucalls) = ucalls
        \<and> \<not> uploaded (fst (uploadPackage pp pclient packageData poptions ucalls))
        \<and> \<not> installed (fst (uploadPackage pp pclient packageData poptions ucalls))
        \<and> dryRun (fst (uploadPackage pp pclient packageData poptions ucalls))"
    if "pkg_dryRun poptions = Some True"
    using that by (simp add: uploadPackage_def Let_def)
  show ?thesis using repl returns purge_calls purge_results package by blast
qed

theorem dry_run_issues_no_call_witness:
  "opt_dryRun dry_options = Given True
   \<and> performReplication flaky_client dry_options [] \<noteq> None
   \<and> fst (snd (the (performReplication flaky_client dry_options []))) = []
   \<and> map requested (repl_results (fst (the (performReplication flaky_client dry_options []))))
       = [False, False, False]
   \<and> par_dryRun dry_parameters
   \<and> snd (purge_item fragment_platform down_net dry_parameters []) = []
   \<and> map purge_requested
         (purge_results (projr (fst (purge_item fragment_platform down_net dry_parameters []))))
       = [False, False]
   \<and> pkg_dryRun (package_options True) = Some True
   \<and> snd (uploadPackage package_platform ok_package_client [80, 75] (package_options True) [])
       = []
   \<and> uploaded (fst (uploadPackage package_platform ok_package_client [80, 75]
                      (package_options True) [])) = False"
proof -
  have h: "opt_dryRun dry_options = Given True" "opt_batchSize dry_options = Given 2"
    "par_dryRun dry_parameters" "pkg_dryRun (package_options True) = Some True"
    by (simp_all add: dry_options_def replicate_options_def dry_parameters_def
                      purge_parameters_def package_options_def)
  show ?thesis
    using dry_run_issues_no_call
            [of dry_options flaky_client "[]"
                "fst (the (performReplication flaky_client dry_options []))"
                "fst (snd (the (performReplication flaky_client dry_options [])))"
                "snd (snd (the (performReplication flaky_client dry_options [])))"
                dry_parameters fragment_platform down_net "[]"
                "projr (fst (purge_item fragment_platform down_net dry_parameters []))"
                "package_options True" package_platform ok_package_client "[80, 75]" "[]"]
          h
    by (simp add: dry_run dry_purge_run)
qed

text \<open>
  Claim C9. Whatever the network does, \<open>performReplication\<close> (with a batch size of one or
  more) returns an output with one result for every distinct path, in order, and the loop
  of the cache purge node gives one result for every URL, in order; an error thrown by the
  call for an item becomes that item's result, with \<open>ok = false\<close> and, after a fixed prefix,
  the message of the thrown \<open>Error\<close> as the result's message (a thrown value that is not an
  \<open>Error\<close> has no message: the result says "Unknown error"). The position \<open>i\<close> below names
  the item, and the calls issued before it are those of the valid items before it. The
  cache purge item throws only its own errors: with URLs to purge and without "fail on
  error" it returns an output.
\<close>

theorem thrown_error_becomes_failed_result:
  assumes "opt_batchSize options = Absent \<or> (\<exists>b. opt_batchSize options = Given b \<and> 1 \<le> b)"
  shows "(\<exists>out cs sl.
            performReplication client options calls = Some (out, cs, sl) \<and>
            map path (repl_results out) = new_Set (opt_paths options) \<and>
            (\<forall>i e. i < length (new_Set (opt_paths options)) \<and>
                   live_path (spread_over False (opt_dryRun options) = Some True)
                     (new_Set (opt_paths options) ! i) \<and>
                   client (calls @ map (replication_call (opt_action options))
                                     (filter (live_path
                                                (spread_over False (opt_dryRun options) = Some True))
                                             (take i (new_Set (opt_paths options)))))
                          (replication_call (opt_action options) (new_Set (opt_paths options) ! i))
                     = Inl e
                 \<longrightarrow> repl_results out ! i =
                       \<lparr> ok = False, statusCode =
                           (case thrown_httpCode e of
                              None \<Rightarrow> Num 500
                            | Some h \<Rightarrow>
                                if h = [] then Num 500
                                else (case parseInt10 h of None \<Rightarrow> NaN | Some c \<Rightarrow> Num c)),
                         path = new_Set (opt_paths options) ! i, action = opt_action options,
                         requested = True,
                         message =
                           (if is_Error e then ''Replication failed: '' @ thrown_message e
                            else ''Replication failed: Unknown error'') \<rparr>))
       \<and> map url (ps_results (purge_urls pf net m allowlistRegex dry customHeaders timeout
                                  urls pcalls)) = urls
       \<and> (\<forall>k e. k < length urls \<and> urls ! k \<notin> set (take k urls) \<and>
                 live_url pf allowlistRegex dry (urls ! k) \<and>
                 net (pcalls @ map (purge_call m customHeaders timeout)
                                 (filter (live_url pf allowlistRegex dry) (new_Set (take k urls))))
                     (purge_call m customHeaders timeout (urls ! k)) = Inl e
               \<longrightarrow> ps_results (purge_urls pf net m allowlistRegex dry customHeaders timeout
                                  urls pcalls) ! k =
                     \<lparr> ok = False, statusCode = Num 0, url = urls ! k, purge_method = m,
                       purge_requested = True,
                       purge_message =
                         (if is_Error e then ''Request failed: '' @ thrown_message e
                          else ''Request failed: Unknown error'') \<rparr>)
       \<and> (par_urls params \<noteq> [] \<and> par_failOnError params \<noteq> Some True \<longrightarrow>
            (\<exists>pout. fst (purge_item pf net params pcalls) = Inr pout \<and>
                    map url (purge_results pout) = par_urls params))"
proof -
  obtain out cs sl where run: "performReplication client options calls = Some (out, cs, sl)"
    and nth: "\<forall>i<length (new_Set (opt_paths options)).
                repl_results out ! i =
                  fst (replicateSinglePath client (new_Set (opt_paths options) ! i)
                         (opt_action options)
                         (spread_over False (opt_dryRun options) = Some True)
                         (calls @ map (replication_call (opt_action options))
                                    (filter (live_path
                                               (spread_over False (opt_dryRun options) = Some True))
                                            (take i (new_Set (opt_paths options))))))"
    using performReplication_closed_form [OF assms, of client calls] by blast
  have paths: "map path (repl_results out) = new_Set (opt_paths options)"
    by (rule performReplication_paths [OF assms run])
  have repl: "\<exists>out cs sl.
            performReplication client options calls = Some (out, cs, sl) \<and>
            map path (repl_results out) = new_Set (opt_paths options) \<and>
            (\<forall>i e. i < length (new_Set (opt_paths options)) \<and>
                   live_path (spread_over False (opt_dryRun options) = Some True)
                     (new_Set (opt_paths options) ! i) \<and>
                   client (calls @ map (replication_call (opt_action options))
                                     (filter (live_path
                                                (spread_over False (opt_dryRun options) = Some True))
                                             (take i (new_Set (opt_paths options)))))
                          (replication_call (opt_action options) (new_Set (opt_paths options) ! i))
                     = Inl e
                 \<longrightarrow> repl_results out ! i =
                       \<lparr> ok = False, statusCode =
                           (case thrown_httpCode e of
                              None \<Rightarrow> Num 500
                            | Some h \<Rightarrow>
                                if h = [] then Num 500
                                else (case parseInt10 h of None \<Rightarrow> NaN | Some c \<Rightarrow> Num c)),
                         path = new_Set (opt_paths options) ! i, action = opt_action options,
                         requested = True,
                         message =
                           (if is_Error e then ''Replication failed: '' @ thrown_message e
                            else ''Replication failed: Unknown error'') \<rparr>)"
    using run paths nth
    by (auto simp: replicateSinglePath_thrown errorMessage_def errorStatus_def)
  have purge: "\<forall>k e. k < length urls \<and> urls ! k \<notin> set (take k urls) \<and>
                 live_url pf allowlistRegex dry (urls ! k) \<and>
                 net (pcalls @ map (purge_call m customHeaders timeout)
                                 (filter (live_url pf allowlistRegex dry) (new_Set (take k urls))))
                     (purge_call m customHeaders timeout (urls ! k)) = Inl e
               \<longrightarrow> ps_results (purge_urls pf net m allowlistRegex dry customHeaders timeout
                                  urls pcalls) ! k =
                     \<lparr> ok = False, statusCode = Num 0, url = urls ! k, purge_method = m,
                       purge_requested = True,
                       purge_message =
                         (if is_Error e then ''Request failed: '' @ thrown_message e
                          else ''Request failed: Unknown error'') \<rparr>"
    by (auto simp: purge_urls_nth purge_fresh_url_thrown errorMessage_def)
  have item: "\<exists>pout. fst (purge_item pf net params pcalls) = Inr pout \<and>
                    map url (purge_results pout) = par_urls params"
    if "par_urls params \<noteq> []" "par_failOnError params \<noteq> Some True"
    using that
    by (simp add: purge_item_def purge_item_try_def Let_def purge_urls_urls)
  show ?thesis using repl purge_urls_urls purge item by blast
qed

theorem thrown_error_becomes_failed_result_witness:
  "opt_batchSize flaky_options = Given 2
   \<and> flaky_client [replication_call activate ''/content/a'']
                   (replication_call activate ''/content/bad'') = Inl hang_up
   \<and> is_Error hang_up \<and> thrown_message hang_up = ''socket hang up''
   \<and> performReplication flaky_client flaky_options [] \<noteq> None
   \<and> map path (repl_results (fst (the (performReplication flaky_client flaky_options []))))
       = [''/content/a'', ''/content/bad'', ''/content/c'']
   \<and> repl_results (fst (the (performReplication flaky_client flaky_options []))) ! 1
       = \<lparr> ok = False, statusCode = Num 500, path = ''/content/bad'', action = activate,
           requested = True, message = ''Replication failed: socket hang up'' \<rparr>
   \<and> map ok (repl_results (fst (the (performReplication flaky_client flaky_options []))))
       = [True, False, True]
   \<and> map purge_message
         (purge_results (projr (fst (purge_item fragment_platform down_net down_parameters []))))
       = [''Request failed: socket hang up'', ''Request failed: socket hang up'']"
proof -
  have h: "opt_batchSize flaky_options = Given 2"
    by (simp add: flaky_options_def replicate_options_def)
  then have b: "opt_batchSize flaky_options = Absent \<or>
                (\<exists>b. opt_batchSize flaky_options = Given b \<and> 1 \<le> b)"
    by simp
  have t: "flaky_client [replication_call activate ''/content/a'']
             (replication_call activate ''/content/bad'') = Inl hang_up"
    by (simp add: flaky_client_def)
  show ?thesis
    using thrown_error_becomes_failed_result
            [OF b, of flaky_client "[]" fragment_platform down_net PURGE good_com_anchored
                False "[]" 5000 "par_urls down_parameters" "[]" down_parameters]
          h t
    by (simp add: flaky_run down_run hang_up_def)
qed




text \<open>
  Claim C10, amended. The cache purge loop checks for a duplicate before it validates the
  URL: for every call whose list holds twice a URL that a validation rejects, the loop
  gives the first occurrence a failed result that was not requested, with status 400 when
  the URL validator rejects it and 403 when only the allowlist does, and gives the second
  occurrence the skip result with \<open>ok = true\<close>, \<open>requested = false\<close> and status 200, so that
  one result at least is a success and one a failure. When the workflow does not fail on
  errors the node emits the output with these results, and \<open>successCount\<close> counts the
  duplicate. When it does, the failed first occurrence makes the node throw, or, under a
  host that tolerates failures, emit the output of a tolerated failure, which holds no
  result and has \<open>successCount = 0\<close>.
\<close>

theorem duplicate_of_rejected_url_is_success:
  assumes "k < l" and "l < length (par_urls params)"
    and "par_urls params ! l = par_urls params ! k"
    and "par_urls params ! k \<notin> set (take k (par_urls params))"
    and "\<not> valid (validateUrlAgainstAllowlist pf (par_urls params ! k) (par_allowlistRegex params))"
  shows "(let rs = ps_results
                     (purge_urls pf net (par_method params) (par_allowlistRegex params)
                        (par_dryRun params) (build_customHeaders (par_customHeaders params))
                        (case par_timeoutMs params of
                           None \<Rightarrow> 5000
                         | Some t \<Rightarrow> if t = 0 then 5000 else t)
                        (par_urls params) calls)
          in length rs = length (par_urls params)
           \<and> ok (rs ! k) = False
           \<and> purge_requested (rs ! k) = False
           \<and> statusCode (rs ! k) =
               (if valid (validateUrl pf (par_urls params ! k) no_url_options)
                then Num 403 else Num 400)
           \<and> rs ! l =
               \<lparr> ok = True, statusCode = Num 200, url = par_urls params ! k,
                 purge_method = par_method params, purge_requested = False,
                 purge_message = ''Skipped (duplicate URL in this batch)'' \<rparr>
           \<and> 1 \<le> length (filter (\<lambda>r. ok r) rs)
           \<and> 1 \<le> length (filter (\<lambda>r. \<not> ok r) rs)
           \<and> (par_failOnError params \<noteq> Some True \<longrightarrow>
                fst (purge_item pf net params calls) =
                  Inr \<lparr> purge_ok = False, totalUrls = length rs,
                        purge_successCount = length (filter (\<lambda>r. ok r) rs),
                        purge_failureCount = length (filter (\<lambda>r. \<not> ok r) rs),
                        purge_dryRun = par_dryRun params,
                        purge_results = rs, purge_error = None \<rparr>)
           \<and> (par_failOnError params = Some True \<longrightarrow>
                (if par_continueOnFail params
                 then \<exists>err. fst (purge_item pf net params calls) =
                        Inr \<lparr> purge_ok = False, totalUrls = 0, purge_successCount = 0,
                              purge_failureCount = 0, purge_dryRun = False,
                              purge_results = [], purge_error = Some err \<rparr>
                 else isl (fst (purge_item pf net params calls)))))"
proof -
  let ?hs = "build_customHeaders (par_customHeaders params)"
  let ?t = "case par_timeoutMs params of None \<Rightarrow> 5000 | Some t \<Rightarrow> if t = 0 then 5000 else t"
  let ?st = "purge_urls pf net (par_method params) (par_allowlistRegex params)
               (par_dryRun params) ?hs ?t (par_urls params) calls"
  let ?rs = "ps_results ?st"
  have k: "k < length (par_urls params)" using assms(1,2) by simp
  then have nonempty: "par_urls params \<noteq> []" by auto
  have len: "length ?rs = length (par_urls params)" by (rule purge_urls_length)
  have first: "?rs ! k =
                 fst (purge_fresh_url pf net (par_method params) (par_allowlistRegex params)
                        (par_dryRun params) ?hs ?t (par_urls params ! k)
                        (calls @ map (purge_call (par_method params) ?hs ?t)
                                   (filter (live_url pf (par_allowlistRegex params)
                                              (par_dryRun params))
                                           (new_Set (take k (par_urls params))))))"
    using assms(4) by (simp add: purge_urls_nth [OF k])
  have rejected: "ok (?rs ! k) = False" "purge_requested (?rs ! k) = False"
    "statusCode (?rs ! k) =
       (if valid (validateUrl pf (par_urls params ! k) no_url_options) then Num 403 else Num 400)"
    unfolding first using purge_fresh_url_rejected [OF assms(5)] by blast+
  have "par_urls params ! l \<in> set (take l (par_urls params))"
    using assms(1,2,3) k by (auto simp: in_set_conv_nth intro!: exI [of _ k])
  then have later: "?rs ! l = skipped_url (par_method params) (par_urls params ! k)"
    using assms(3) by (simp add: purge_urls_nth [OF assms(2)])
  have success: "1 \<le> length (filter (\<lambda>r. ok r) ?rs)"
    by (rule filter_has [of l]) (simp_all add: len assms(2) later skipped_url_def)
  have failure: "1 \<le> length (filter (\<lambda>r. \<not> ok r) ?rs)"
    by (rule filter_has [of k]) (simp_all add: len k rejected(1))
  then have failed: "filter (\<lambda>r. \<not> ok r) ?rs \<noteq> []" by auto
  have lenient: "fst (purge_item pf net params calls) =
                  Inr \<lparr> purge_ok = False, totalUrls = length ?rs,
                        purge_successCount = length (filter (\<lambda>r. ok r) ?rs),
                        purge_failureCount = length (filter (\<lambda>r. \<not> ok r) ?rs),
                        purge_dryRun = par_dryRun params,
                        purge_results = ?rs, purge_error = None \<rparr>"
    if "par_failOnError params \<noteq> Some True"
    using nonempty that failed by (simp add: purge_item_def purge_item_try_def Let_def)
  have strict: "if par_continueOnFail params
                 then \<exists>err. fst (purge_item pf net params calls) =
                        Inr \<lparr> purge_ok = False, totalUrls = 0, purge_successCount = 0,
                              purge_failureCount = 0, purge_dryRun = False,
                              purge_results = [], purge_error = Some err \<rparr>
                 else isl (fst (purge_item pf net params calls))"
    if "par_failOnError params = Some True"
    using nonempty that failed by (simp add: purge_item_def purge_item_try_def Let_def)
  have loop: "length ?rs = length (par_urls params)
           \<and> ok (?rs ! k) = False
           \<and> purge_requested (?rs ! k) = False
           \<and> statusCode (?rs ! k) =
               (if valid (validateUrl pf (par_urls params ! k) no_url_options)
                then Num 403 else Num 400)
           \<and> ?rs ! l =
               \<lparr> ok = True, statusCode = Num 200, url = par_urls params ! k,
                 purge_method = par_method params, purge_requested = False,
                 purge_message = ''Skipped (duplicate URL in this batch)'' \<rparr>
           \<and> 1 \<le> length (filter (\<lambda>r. ok r) ?rs)
           \<and> 1 \<le> length (filter (\<lambda>r. \<not> ok r) ?rs)"
    using len rejected later success failure by (simp add: skipped_url_def)
  show ?thesis unfolding Let_def using loop lenient strict by blast
qed

lemma twice_runs:
  "isl (fst (purge_item fragment_platform ok_net strict_twice_parameters [])) = True"
  "fst (purge_item fragment_platform ok_net tolerant_twice_parameters []) =
     Inr \<lparr> purge_ok = False, totalUrls = 0, purge_successCount = 0,
           purge_failureCount = 0, purge_dryRun = False, purge_results = [],
           purge_error =
             Some (''Cache purge failed for 1 URL(s): https://evil.com/x: '' @
                   ''URL does not match allowlist pattern: '' @ good_com_anchored) \<rparr>"
  by code_simp+

theorem duplicate_of_rejected_url_is_success_witness:
  "par_urls ftp_parameters = [''ftp://good.com/a'', ''ftp://good.com/a'']
   \<and> valid (validateUrlAgainstAllowlist fragment_platform ''ftp://good.com/a''
              good_com_anchored) = False
   \<and> par_failOnError ftp_parameters \<noteq> Some True
   \<and> fst (purge_item fragment_platform ok_net ftp_parameters []) =
       Inr \<lparr> purge_ok = False, totalUrls = 2, purge_successCount = 1, purge_failureCount = 1,
             purge_dryRun = False,
             purge_results =
               [\<lparr> ok = False, statusCode = Num 400, url = ''ftp://good.com/a'',
                   purge_method = PURGE, purge_requested = False,
                   purge_message = ''URL must use HTTP or HTTPS protocol'' \<rparr>,
                \<lparr> ok = True, statusCode = Num 200, url = ''ftp://good.com/a'',
                   purge_method = PURGE, purge_requested = False,
                   purge_message = ''Skipped (duplicate URL in this batch)'' \<rparr>],
             purge_error = None \<rparr>
   \<and> statusCode (purge_results
         (projr (fst (purge_item fragment_platform ok_net mixed_parameters []))) ! 1) = Num 403
   \<and> ok (purge_results
         (projr (fst (purge_item fragment_platform ok_net mixed_parameters []))) ! 3) = True"
proof -
  have h: "par_urls ftp_parameters = [''ftp://good.com/a'', ''ftp://good.com/a'']"
    "par_allowlistRegex ftp_parameters = good_com_anchored"
    "par_failOnError ftp_parameters \<noteq> Some True"
    by (simp_all add: ftp_parameters_def purge_parameters_def)
  have v: "valid (validateUrlAgainstAllowlist fragment_platform ''ftp://good.com/a''
                    good_com_anchored) = False"
    by code_simp
  have u: "(0::nat) < 1" "1 < length (par_urls ftp_parameters)"
    "par_urls ftp_parameters ! 1 = par_urls ftp_parameters ! 0"
    "par_urls ftp_parameters ! 0 \<notin> set (take 0 (par_urls ftp_parameters))"
    "\<not> valid (validateUrlAgainstAllowlist fragment_platform (par_urls ftp_parameters ! 0)
               (par_allowlistRegex ftp_parameters))"
    using v by (simp_all add: h)
  show ?thesis
    using duplicate_of_rejected_url_is_success [OF u, of ok_net "[]"] h v
    by (simp add: ftp_run mixed_run)
qed

text \<open>
  Claim C10 as stated fails for a workflow that fails on errors. With a URL outside the
  allowlist listed twice the node throws; under a host that tolerates failures it emits an
  output without results and with \<open>successCount = 0\<close>: the duplicate is not counted.
\<close>

theorem duplicate_not_counted_counterexample:
  "par_urls tolerant_twice_parameters = [''https://evil.com/x'', ''https://evil.com/x'']
   \<and> isl (fst (purge_item fragment_platform ok_net strict_twice_parameters [])) = True
   \<and> isl (fst (purge_item fragment_platform ok_net tolerant_twice_parameters [])) = False
   \<and> purge_results
        (projr (fst (purge_item fragment_platform ok_net tolerant_twice_parameters []))) = []
   \<and> purge_successCount
        (projr (fst (purge_item fragment_platform ok_net tolerant_twice_parameters []))) = 0"
proof -
  have u: "par_urls tolerant_twice_parameters = [''https://evil.com/x'', ''https://evil.com/x'']"
    by (simp add: tolerant_twice_parameters_def strict_twice_parameters_def
                  purge_parameters_def)
  show ?thesis using u by (simp add: twice_runs)
qed
end
